theory Spec2Isabelle
  imports Main "HOL-Library.Word" "HOL-Library.Signed_Division"
begin

section \<open>Shared vocabulary\<close>

text \<open>
  The accord repository has two halves that meet at the wire protocol: the server-side
  service adapter (\<^verbatim>\<open>internal/service/service.go\<close>) and the client library
  (\<^verbatim>\<open>package accord\<close>). Both are embedded here function by function. Calls that leave
  the process (the storage backend, the protocol client, the local cache, the network
  connection) are Go interface values; an interface value is a record of its methods,
  each a function on the state of the outside world that returns its Go result together
  with the new state. Every such call is also appended to a log, so that "was never
  invoked" is a statement about the log. The \<^verbatim>\<open>context.Context\<close> argument is only
  handed through by the code and is left out.
\<close>

type_synonym byte = "8 word"
type_synonym int64 = "64 word"
type_synonym uint32 = "32 word"
type_synonym metadata = "string \<rightharpoonup> string"

text \<open>
  Go errors. \<^verbatim>\<open>ErrAcquired\<close> and \<^verbatim>\<open>ErrDone\<close> are the two sentinels of package
  accord, compared by identity in the code; \<^verbatim>\<open>EOF\<close> is \<^verbatim>\<open>io.EOF\<close>;
  \<^verbatim>\<open>InvalidArgument msg\<close> is \<^verbatim>\<open>status.Error(codes.InvalidArgument, msg)\<close>;
  \<^verbatim>\<open>Failure msg\<close> is any other error value.
\<close>

datatype error = ErrAcquired | ErrDone | EOF | InvalidArgument string | Failure string

subsection \<open>Integers of the machine\<close>

text \<open>Go's \<^verbatim>\<open>/\<close> on int64: the quotient truncated towards zero, wrapped into 64 bits.\<close>

definition quo64 :: "int64 \<Rightarrow> int64 \<Rightarrow> int64" where
  "quo64 a b = word_of_int (sint a sdiv sint b)"

subsection \<open>Time\<close>

text \<open>
  \<^verbatim>\<open>time.Duration\<close> is an int64 count of nanoseconds. A \<^verbatim>\<open>time.Time\<close> is the
  instant it denotes, given by what its accessors \<^verbatim>\<open>Unix()\<close> (whole seconds since
  the epoch, rounded down; an int64 in Go, the integer it stands for here) and
  \<^verbatim>\<open>Nanosecond()\<close> (the offset within that second, 0 to 999999999) return.
\<close>

type_synonym Duration = int64

definition Second :: Duration where
  "Second = 1000000000"

definition Minute :: Duration where
  "Minute = 60 * Second"

record Time =
  Unix :: int
  Nanosecond :: nat

definition valid_Time :: "Time \<Rightarrow> bool" where
  "valid_Time t = (Nanosecond t < 1000000000)"

text \<open>
  \<^verbatim>\<open>Time.Add\<close> of the Go library: the duration is split into whole seconds and a
  nanosecond rest (both truncating), the rest is added to the nanosecond offset with
  a carry or borrow of one second. (The library saturates its 64-bit second counter at
  the two ends of its range; seconds are unbounded here.)
\<close>

definition Add :: "Time \<Rightarrow> Duration \<Rightarrow> Time" where
  "Add t d =
     (let dsec = sint d sdiv 1000000000;
          nsec = int (Nanosecond t) + sint d smod 1000000000
      in if nsec \<ge> 1000000000 then \<lparr>Unix = Unix t + dsec + 1, Nanosecond = nat (nsec - 1000000000)\<rparr>
         else if nsec < 0 then \<lparr>Unix = Unix t + dsec - 1, Nanosecond = nat (nsec + 1000000000)\<rparr>
         else \<lparr>Unix = Unix t + dsec, Nanosecond = nat nsec\<rparr>)"

text \<open>The instant as a count of milliseconds since the epoch, rounded down.\<close>

definition millis_since_epoch :: "Time \<Rightarrow> int" where
  "millis_since_epoch t = (Unix t * 1000000000 + int (Nanosecond t)) div 1000000"

subsection \<open>Unique identifiers\<close>

text \<open>
  \<^verbatim>\<open>uuid.UUID\<close> is an array of 16 bytes. \<^verbatim>\<open>uuid.FromBytes\<close> fails unless it is
  given exactly 16 bytes, and copies them otherwise. Its error is built with
  \<^verbatim>\<open>fmt.Errorf("invalid UUID (got %d bytes)", len(data))\<close>; \<open>decimal\<close> is the
  \<^verbatim>\<open>%d\<close> of a length.
\<close>

datatype UUID = UUID (bytes: "byte list")

fun decimal :: "nat \<Rightarrow> string" where
  "decimal n =
     (if n < 10 then [''0123456789'' ! n]
      else decimal (n div 10) @ [''0123456789'' ! (n mod 10)])"

declare decimal.simps [simp del]

definition FromBytes :: "byte list \<Rightarrow> error + UUID" where
  "FromBytes b =
     (if length b \<noteq> 16
      then Inl (Failure (''invalid UUID (got '' @ decimal (length b) @ '' bytes)''))
      else Inr (UUID b))"

section \<open>Wire protocol messages\<close>

datatype Status = OK | HELD | DONE

record rpc_Handle =
  h_Id :: "byte list"
  h_Name :: string
  h_Namespace :: string
  h_ExpTime :: int64
  h_NumAcquired :: uint32
  h_Metadata :: metadata

record AcquireRequest =
  acq_Owner :: string
  acq_Name :: string
  acq_Namespace :: string
  acq_Ttl :: uint32
  acq_Metadata :: metadata

record AcquireResponse =
  res_Status :: Status
  res_Handle :: "rpc_Handle option"

record RenewRequest =
  ren_Owner :: string
  ren_HandleId :: "byte list"
  ren_Ttl :: uint32
  ren_Metadata :: metadata

record DoneRequest =
  don_Owner :: string
  don_HandleId :: "byte list"
  don_Metadata :: metadata

text \<open>
  The status member of the list filter. The code only names
  \<^verbatim>\<open>ListRequest_Filter_DONE\<close>; the zero value of the enumeration stands for the
  others.
\<close>

datatype Filter_Status = Filter_ALL | Filter_DONE

record ListRequest_Filter =
  flt_Prefix :: string
  flt_Status :: Filter_Status

record ListRequest =
  lst_Filter :: "ListRequest_Filter option"

section \<open>The service adapter\<close>

subsection \<open>The storage backend it delegates to\<close>

text \<open>
  \<^verbatim>\<open>backend.HandleData\<close> and the \<^verbatim>\<open>backend.Backend\<close> interface are declared
  outside the given files. The record has the fields \<^verbatim>\<open>convertHandle\<close> reads; the
  interface has the three methods the unary procedures call, with the arguments the
  call sites pass. A Go result \<^verbatim>\<open>(value, error)\<close> is a sum, \<^verbatim>\<open>Inl\<close> the error.
\<close>

record HandleData =
  hd_ID :: UUID
  hd_Name :: string
  hd_Namespace :: string
  hd_ExpTime :: Time
  hd_NumAcquired :: int
  hd_Metadata :: metadata

record 'b Backend =
  backend_Acquire :: "string \<Rightarrow> string \<Rightarrow> string \<Rightarrow> Time \<Rightarrow> metadata \<Rightarrow> 'b \<Rightarrow> (error + HandleData) \<times> 'b"
  backend_Renew :: "string \<Rightarrow> UUID \<Rightarrow> Time \<Rightarrow> metadata \<Rightarrow> 'b \<Rightarrow> error option \<times> 'b"
  backend_Done :: "string \<Rightarrow> UUID \<Rightarrow> metadata \<Rightarrow> 'b \<Rightarrow> error option \<times> 'b"

text \<open>
  One entry of the log per backend method call, with the arguments as passed
  (owner, namespace, name, expiration, metadata for Acquire).
\<close>

datatype backend_call =
    Backend_Acquire string string string Time metadata
  | Backend_Renew string UUID Time metadata
  | Backend_Done string UUID metadata

text \<open>The server's outside world: the backend's state and the log of calls made to it.\<close>

type_synonym 'b server = "'b \<times> backend_call list"

definition invoke :: "'e \<Rightarrow> ('b \<Rightarrow> 'r \<times> 'b) \<Rightarrow> 'b \<times> 'e list \<Rightarrow> 'r \<times> ('b \<times> 'e list)" where
  "invoke c f \<sigma> = (case f (fst \<sigma>) of (r, s') \<Rightarrow> (r, (s', snd \<sigma> @ [c])))"

record 'b service =
  svc_b :: "'b Backend"

subsection \<open>convertHandle and expTime\<close>

text \<open>
  The millisecond count is computed in int64, where \<^verbatim>\<open>*\<close> and \<^verbatim>\<open>+\<close> wrap around;
  \<^verbatim>\<open>uint32(data.NumAcquired)\<close> keeps the low 32 bits of the counter.
\<close>

definition convertHandle :: "HandleData \<Rightarrow> rpc_Handle" where
  "convertHandle data =
     (let expMillis = (word_of_int (Unix (hd_ExpTime data)) :: int64) * 1000
                      + quo64 (word_of_nat (Nanosecond (hd_ExpTime data))) 1000000
      in \<lparr>h_Id = bytes (hd_ID data),
          h_Name = hd_Name data,
          h_Namespace = hd_Namespace data,
          h_ExpTime = expMillis,
          h_NumAcquired = word_of_int (hd_NumAcquired data),
          h_Metadata = hd_Metadata data\<rparr>)"

text \<open>\<^verbatim>\<open>expTime\<close> reads the clock; the reading is the argument \<open>now\<close>.\<close>

definition expTime :: "Time \<Rightarrow> uint32 \<Rightarrow> Time" where
  "expTime now ttl = Add now (Second * ucast ttl)"

subsection \<open>The unary procedures\<close>

definition service_Acquire ::
  "'b service \<Rightarrow> Time \<Rightarrow> AcquireRequest \<Rightarrow> 'b server \<Rightarrow> (error + AcquireResponse) \<times> 'b server" where
  "service_Acquire s now req \<sigma> =
     (if acq_Owner req = [] then (Inl (InvalidArgument ''invalid owner''), \<sigma>)
      else if acq_Name req = [] then (Inl (InvalidArgument ''invalid name''), \<sigma>)
      else
        (case invoke
                (Backend_Acquire (acq_Owner req) (acq_Namespace req) (acq_Name req)
                   (expTime now (acq_Ttl req)) (acq_Metadata req))
                (backend_Acquire (svc_b s) (acq_Owner req) (acq_Namespace req) (acq_Name req)
                   (expTime now (acq_Ttl req)) (acq_Metadata req)) \<sigma> of
           (Inl err, \<sigma>') \<Rightarrow>
             if err = ErrDone then (Inr \<lparr>res_Status = DONE, res_Handle = None\<rparr>, \<sigma>')
             else if err = ErrAcquired then (Inr \<lparr>res_Status = HELD, res_Handle = None\<rparr>, \<sigma>')
             else (Inl err, \<sigma>')
         | (Inr data, \<sigma>') \<Rightarrow>
             (Inr \<lparr>res_Status = OK, res_Handle = Some (convertHandle data)\<rparr>, \<sigma>')))"

definition service_Renew ::
  "'b service \<Rightarrow> Time \<Rightarrow> RenewRequest \<Rightarrow> 'b server \<Rightarrow> (error + unit) \<times> 'b server" where
  "service_Renew s now req \<sigma> =
     (if ren_Owner req = [] then (Inl (InvalidArgument ''invalid owner''), \<sigma>)
      else
        (case FromBytes (ren_HandleId req) of
           Inl err \<Rightarrow> (Inl (InvalidArgument ''invalid handle ID''), \<sigma>)
         | Inr handleID \<Rightarrow>
             (case invoke
                     (Backend_Renew (ren_Owner req) handleID (expTime now (ren_Ttl req)) (ren_Metadata req))
                     (backend_Renew (svc_b s) (ren_Owner req) handleID
                        (expTime now (ren_Ttl req)) (ren_Metadata req)) \<sigma> of
                (Some err, \<sigma>') \<Rightarrow> (Inl err, \<sigma>')
              | (None, \<sigma>') \<Rightarrow> (Inr (), \<sigma>'))))"

definition service_Done ::
  "'b service \<Rightarrow> DoneRequest \<Rightarrow> 'b server \<Rightarrow> (error + unit) \<times> 'b server" where
  "service_Done s req \<sigma> =
     (if don_Owner req = [] then (Inl (InvalidArgument ''invalid owner''), \<sigma>)
      else
        (case FromBytes (don_HandleId req) of
           Inl err \<Rightarrow> (Inl (InvalidArgument ''invalid handle ID''), \<sigma>)
         | Inr handleID \<Rightarrow>
             (case invoke
                     (Backend_Done (don_Owner req) handleID (don_Metadata req))
                     (backend_Done (svc_b s) (don_Owner req) handleID (don_Metadata req)) \<sigma> of
                (Some err, \<sigma>') \<Rightarrow> (Inl err, \<sigma>')
              | (None, \<sigma>') \<Rightarrow> (Inr (), \<sigma>'))))"

section \<open>The client library\<close>

subsection \<open>Options\<close>

text \<open>\<^verbatim>\<open>OnError\<close> is a Go function value; only whether it is nil matters to the code here.\<close>

datatype callback = Callback nat

record ClientOptions =
  Owner :: string
  Namespace :: string
  TTL :: Duration
  Dir :: string
  OnError :: "callback option"

text \<open>The zero value of the struct, which \<^verbatim>\<open>var p ClientOptions\<close> declares.\<close>

definition zero_ClientOptions :: ClientOptions where
  "zero_ClientOptions = \<lparr>Owner = [], Namespace = [], TTL = 0, Dir = [], OnError = None\<rparr>"

text \<open>Go's conversion \<^verbatim>\<open>uint32(x)\<close> of an int64 keeps the low 32 bits.\<close>

definition ttlSeconds :: "ClientOptions \<Rightarrow> uint32" where
  "ttlSeconds o' = ucast (quo64 (TTL o') Second)"

text \<open>
  \<^verbatim>\<open>norm\<close>, on values: the receiver is \<open>None\<close> for a nil pointer and the struct it
  points to otherwise; the result is the struct the returned pointer points to.
  \<open>fresh\<close> is what \<^verbatim>\<open>uuid.New().String()\<close> returns when it is called.
\<close>

definition norm :: "string \<Rightarrow> ClientOptions option \<Rightarrow> ClientOptions" where
  "norm fresh o' =
     (let p = (case o' of None \<Rightarrow> zero_ClientOptions | Some v \<Rightarrow> v);
          p = (if Owner p = [] then p\<lparr>Owner := fresh\<rparr> else p);
          p = (if TTL p <s Second then p\<lparr>TTL := 10 * Minute\<rparr> else p);
          p = (if Dir p = [] then p\<lparr>Dir := ''data''\<rparr> else p)
      in p)"

text \<open>
  \<^verbatim>\<open>norm\<close> with its pointers: the store holds the structs that exist, an address is
  an index into it (a Go pointer that is not nil always points to one of them), and
  \<^verbatim>\<open>&p\<close> of the local variable is a new cell at the end.
\<close>

type_synonym store = "ClientOptions list"

definition norm_at :: "string \<Rightarrow> nat option \<Rightarrow> store \<Rightarrow> nat \<times> store" where
  "norm_at fresh o' h = (length h, h @ [norm fresh (map_option (\<lambda>a. h ! a) o')])"

subsection \<open>What the client calls\<close>

text \<open>
  The interfaces of the cache package, of the generated protocol client and of the grpc
  connection, with the methods the client calls. The stream that \<^verbatim>\<open>List\<close> returns
  is the sequence of results its \<^verbatim>\<open>Recv\<close> gives, one per call: a record and the rest
  of the stream, or an error (\<^verbatim>\<open>io.EOF\<close> at a clean end). It may go on forever.
\<close>

record 'w Writer =
  wb_Add :: "string \<Rightarrow> 'w \<Rightarrow> error option \<times> 'w"
  wb_Flush :: "'w \<Rightarrow> error option \<times> 'w"
  wb_Discard :: "'w \<Rightarrow> 'w"

record 'w Cache =
  cache_Contains :: "string \<Rightarrow> 'w \<Rightarrow> (error + bool) \<times> 'w"
  cache_Add :: "string \<Rightarrow> 'w \<Rightarrow> error option \<times> 'w"
  cache_AddBatch :: "'w \<Rightarrow> (error + 'w Writer) \<times> 'w"
  cache_Close :: "'w \<Rightarrow> error option \<times> 'w"

codatatype V1_ListClient = Recv_Handle rpc_Handle V1_ListClient | Recv_Error error

record 'w V1Client =
  rpc_Acquire :: "AcquireRequest \<Rightarrow> 'w \<Rightarrow> (error + AcquireResponse) \<times> 'w"
  rpc_List :: "ListRequest \<Rightarrow> 'w \<Rightarrow> (error + V1_ListClient) \<times> 'w"

record 'w ClientConn =
  cc_Close :: "'w \<Rightarrow> error option \<times> 'w"

text \<open>
  The library functions the constructors call: \<^verbatim>\<open>cache.OpenBadger\<close>,
  \<^verbatim>\<open>grpc.DialContext\<close>, \<^verbatim>\<open>proto.NewV1Client\<close> and \<^verbatim>\<open>filepath.Join\<close>.
\<close>

record 'w Platform =
  OpenBadger :: "string \<Rightarrow> 'w \<Rightarrow> (error + 'w Cache) \<times> 'w"
  DialContext :: "string \<Rightarrow> 'w \<Rightarrow> (error + 'w ClientConn) \<times> 'w"
  NewV1Client :: "'w ClientConn \<Rightarrow> 'w V1Client"
  Join :: "string \<Rightarrow> string \<Rightarrow> string"

text \<open>A stream that delivers the given records and then ends with the given error.\<close>

primrec stream_of :: "rpc_Handle list \<Rightarrow> error \<Rightarrow> V1_ListClient" where
  "stream_of [] e = Recv_Error e"
| "stream_of (h # hs) e = Recv_Handle h (stream_of hs e)"

text \<open>One entry of the client's log per call that leaves the client.\<close>

datatype event =
    Open_Badger string
  | Dial string
  | Cache_Contains string
  | Cache_Add string
  | Cache_AddBatch
  | Cache_Close
  | Batch_Add string
  | Batch_Flush
  | Batch_Discard
  | Rpc_Acquire AcquireRequest
  | Rpc_List ListRequest
  | Stream_Recv
  | Conn_Close

type_synonym 'w world = "'w \<times> event list"

text \<open>
  A Go call either returns a value, returns an error, or panics. The two panics of the
  client: a field read through a nil pointer, and \<^verbatim>\<open>uuid.Must\<close> given an error.
\<close>

datatype panic = NilDereference | Must error

datatype 'a result = Ok 'a | Err error | Panic panic

subsection \<open>The client and its handle\<close>

record 'w client =
  cl_rpc :: "'w V1Client"
  cl_opt :: ClientOptions
  cl_cache :: "'w Cache option"
  cl_ownCC :: "'w ClientConn option"

text \<open>
  Modelled from the spec: the \<^verbatim>\<open>Handle\<close> type and \<^verbatim>\<open>newHandle\<close> are in a file
  of the repository that is not among the given ones. The handle wraps the returned
  identifier, the metadata, the protocol client and the client's configuration.
\<close>

record 'w Handle =
  hnd_id :: UUID
  hnd_rpc :: "'w V1Client"
  hnd_metadata :: metadata
  hnd_opt :: ClientOptions

definition newHandle :: "UUID \<Rightarrow> 'w V1Client \<Rightarrow> metadata \<Rightarrow> ClientOptions \<Rightarrow> 'w Handle" where
  "newHandle handleID rpc meta opt = \<lparr>hnd_id = handleID, hnd_rpc = rpc, hnd_metadata = meta, hnd_opt = opt\<rparr>"

subsection \<open>Acquire and Close\<close>

definition client_Acquire ::
  "'w client \<Rightarrow> string \<Rightarrow> metadata \<Rightarrow> 'w world \<Rightarrow> 'w Handle result \<times> 'w world" where
  "client_Acquire c name meta \<sigma> =
     (case cl_cache c of
        None \<Rightarrow> (Panic NilDereference, \<sigma>)
      | Some cache \<Rightarrow>
          (case invoke (Cache_Contains name) (cache_Contains cache name) \<sigma> of
             (Inl err, \<sigma>1) \<Rightarrow> (Err err, \<sigma>1)
           | (Inr found, \<sigma>1) \<Rightarrow>
               if found then (Err ErrDone, \<sigma>1)
               else
                 (let req = \<lparr>acq_Owner = Owner (cl_opt c),
                             acq_Name = name,
                             acq_Namespace = Namespace (cl_opt c),
                             acq_Ttl = ttlSeconds (cl_opt c),
                             acq_Metadata = meta\<rparr>
                  in case invoke (Rpc_Acquire req) (rpc_Acquire (cl_rpc c) req) \<sigma>1 of
                       (Inl err, \<sigma>2) \<Rightarrow> (Err err, \<sigma>2)
                     | (Inr res, \<sigma>2) \<Rightarrow>
                         if res_Status res = HELD then (Err ErrAcquired, \<sigma>2)
                         else if res_Status res = DONE then
                           (case invoke (Cache_Add name) (cache_Add cache name) \<sigma>2 of
                              (Some err, \<sigma>3) \<Rightarrow> (Err err, \<sigma>3)
                            | (None, \<sigma>3) \<Rightarrow> (Err ErrDone, \<sigma>3))
                         else
                           (case res_Handle res of
                              None \<Rightarrow> (Panic NilDereference, \<sigma>2)
                            | Some h \<Rightarrow>
                                (case FromBytes (h_Id h) of
                                   Inl err \<Rightarrow> (Panic (Must err), \<sigma>2)
                                 | Inr handleID \<Rightarrow>
                                     (Ok (newHandle handleID (cl_rpc c) (h_Metadata h) (cl_opt c)), \<sigma>2))))))"

definition client_Close :: "'w client \<Rightarrow> 'w world \<Rightarrow> error option \<times> 'w world" where
  "client_Close c \<sigma> =
     (let (err, \<sigma>1) =
            (case cl_cache c of
               None \<Rightarrow> (None, \<sigma>)
             | Some cache \<Rightarrow>
                 (case invoke Cache_Close (cache_Close cache) \<sigma> of
                    (Some e2, \<sigma>') \<Rightarrow> (Some e2, \<sigma>')
                  | (None, \<sigma>') \<Rightarrow> (None, \<sigma>')))
      in case cl_ownCC c of
           None \<Rightarrow> (err, \<sigma>1)
         | Some cc \<Rightarrow>
             (case invoke Conn_Close (cc_Close cc) \<sigma>1 of
                (Some e2, \<sigma>') \<Rightarrow> (Some e2, \<sigma>')
              | (None, \<sigma>') \<Rightarrow> (err, \<sigma>')))"

subsection \<open>Startup synchronisation and the constructors\<close>

text \<open>The deferred \<^verbatim>\<open>wb.Discard()\<close>, which returns nothing.\<close>

definition discard :: "'w Writer \<Rightarrow> 'w world \<Rightarrow> 'w world" where
  "discard wb \<sigma> = snd (invoke Batch_Discard (\<lambda>w. ((), wb_Discard wb w)) \<sigma>)"

text \<open>
  The \<^verbatim>\<open>for\<close> loop of \<^verbatim>\<open>fetchDone\<close>. It leaves by \<^verbatim>\<open>break\<close> (result
  \<open>None\<close>, at \<^verbatim>\<open>io.EOF\<close>) or by \<^verbatim>\<open>return err\<close> (result \<open>Some err\<close>); on a stream
  that never ends it does not return, which is the outer \<open>None\<close>.
\<close>

partial_function (option) recv_loop ::
  "string \<Rightarrow> 'w Writer \<Rightarrow> V1_ListClient \<Rightarrow> 'w world \<Rightarrow> (error option \<times> 'w world) option" where
  "recv_loop ns wb res \<sigma> =
     (case res of
        Recv_Error err \<Rightarrow>
          (if err = EOF then Some (None, (fst \<sigma>, snd \<sigma> @ [Stream_Recv]))
           else Some (Some err, (fst \<sigma>, snd \<sigma> @ [Stream_Recv])))
      | Recv_Handle handle res' \<Rightarrow>
          (if h_Namespace handle = ns then
             (case invoke (Batch_Add (h_Name handle)) (wb_Add wb (h_Name handle))
                     (fst \<sigma>, snd \<sigma> @ [Stream_Recv]) of
                (Some err, \<sigma>') \<Rightarrow> Some (Some err, \<sigma>')
              | (None, \<sigma>') \<Rightarrow> recv_loop ns wb res' \<sigma>')
           else recv_loop ns wb res' (fst \<sigma>, snd \<sigma> @ [Stream_Recv])))"

definition fetchDone :: "'w client \<Rightarrow> 'w world \<Rightarrow> (unit result \<times> 'w world) option" where
  "fetchDone c \<sigma> =
     (let req = \<lparr>lst_Filter = Some \<lparr>flt_Prefix = Namespace (cl_opt c), flt_Status = Filter_DONE\<rparr>\<rparr>
      in case invoke (Rpc_List req) (rpc_List (cl_rpc c) req) \<sigma> of
           (Inl err, \<sigma>1) \<Rightarrow> Some (Err err, \<sigma>1)
         | (Inr res, \<sigma>1) \<Rightarrow>
             (case cl_cache c of
                None \<Rightarrow> Some (Panic NilDereference, \<sigma>1)
              | Some cache \<Rightarrow>
                  (case invoke Cache_AddBatch (cache_AddBatch cache) \<sigma>1 of
                     (Inl err, \<sigma>2) \<Rightarrow> Some (Err err, \<sigma>2)
                   | (Inr wb, \<sigma>2) \<Rightarrow>
                       (case recv_loop (Namespace (cl_opt c)) wb res \<sigma>2 of
                          None \<Rightarrow> None
                        | Some (Some err, \<sigma>3) \<Rightarrow> Some (Err err, discard wb \<sigma>3)
                        | Some (None, \<sigma>3) \<Rightarrow>
                            (case invoke Batch_Flush (wb_Flush wb) \<sigma>3 of
                               (Some err, \<sigma>4) \<Rightarrow> Some (Err err, discard wb \<sigma>4)
                             | (None, \<sigma>4) \<Rightarrow> Some (Ok (), discard wb \<sigma>4))))))"

definition RPCClient ::
  "'w Platform \<Rightarrow> string \<Rightarrow> 'w V1Client \<Rightarrow> ClientOptions option \<Rightarrow> 'w world
     \<Rightarrow> ('w client result \<times> 'w world) option" where
  "RPCClient P fresh rpc opt0 \<sigma> =
     (let opt = norm fresh opt0;
          path = Join P (Dir opt) ''cache''
      in case invoke (Open_Badger path) (OpenBadger P path) \<sigma> of
           (Inl err, \<sigma>1) \<Rightarrow> Some (Err err, \<sigma>1)
         | (Inr cache, \<sigma>1) \<Rightarrow>
             (let client = \<lparr>cl_rpc = rpc, cl_opt = opt, cl_cache = Some cache, cl_ownCC = None\<rparr>
              in case fetchDone client \<sigma>1 of
                   None \<Rightarrow> None
                 | Some (Err err, \<sigma>2) \<Rightarrow>
                     Some (Err err, snd (invoke Cache_Close (cache_Close cache) \<sigma>2))
                 | Some (Panic p, \<sigma>2) \<Rightarrow> Some (Panic p, \<sigma>2)
                 | Some (Ok u, \<sigma>2) \<Rightarrow> Some (Ok client, \<sigma>2)))"

definition WrapClient ::
  "'w Platform \<Rightarrow> string \<Rightarrow> 'w ClientConn \<Rightarrow> ClientOptions option \<Rightarrow> 'w world
     \<Rightarrow> ('w client result \<times> 'w world) option" where
  "WrapClient P fresh cc opt0 \<sigma> = RPCClient P fresh (NewV1Client P cc) opt0 \<sigma>"

definition DialClient ::
  "'w Platform \<Rightarrow> string \<Rightarrow> string \<Rightarrow> ClientOptions option \<Rightarrow> 'w world
     \<Rightarrow> ('w client result \<times> 'w world) option" where
  "DialClient P fresh target opt0 \<sigma> =
     (case invoke (Dial target) (DialContext P target) \<sigma> of
        (Inl err, \<sigma>1) \<Rightarrow> Some (Err err, \<sigma>1)
      | (Inr cc, \<sigma>1) \<Rightarrow>
          (case WrapClient P fresh cc opt0 \<sigma>1 of
             None \<Rightarrow> None
           | Some (Err err, \<sigma>2) \<Rightarrow> Some (Err err, snd (invoke Conn_Close (cc_Close cc) \<sigma>2))
           | Some (Panic p, \<sigma>2) \<Rightarrow> Some (Panic p, \<sigma>2)
           | Some (Ok ci, \<sigma>2) \<Rightarrow> Some (Ok (ci\<lparr>cl_ownCC := Some cc\<rparr>), \<sigma>2)))"

section \<open>Reading the logs\<close>

text \<open>
  What the loop of \<^verbatim>\<open>fetchDone\<close> logs while it receives the given records with no
  failure: one \<^verbatim>\<open>Recv\<close> per record, followed by the staging of its name when the
  record is in the namespace.
\<close>

fun recv_events :: "string \<Rightarrow> rpc_Handle list \<Rightarrow> event list" where
  "recv_events ns [] = []"
| "recv_events ns (h # hs) =
     Stream_Recv # (if h_Namespace h = ns then [Batch_Add (h_Name h)] else []) @ recv_events ns hs"

text \<open>
  Staging the given names into a batch one after the other, as long as no
  \<^verbatim>\<open>wb.Add\<close> fails: the first error (or none) and the state the batch is left in.
\<close>

fun stage_all :: "'w Writer \<Rightarrow> string list \<Rightarrow> 'w \<Rightarrow> error option \<times> 'w" where
  "stage_all wb [] w = (None, w)"
| "stage_all wb (n # ns) w =
     (case wb_Add wb n w of
        (Some err, w') \<Rightarrow> (Some err, w')
      | (None, w') \<Rightarrow> stage_all wb ns w')"

text \<open>The names a log stages into a write batch, in order.\<close>

fun staged_names :: "event list \<Rightarrow> string list" where
  "staged_names [] = []"
| "staged_names (Batch_Add n # es) = n # staged_names es"
| "staged_names (e # es) = staged_names es"

text \<open>The \<^verbatim>\<open>List\<close> calls and the remote \<^verbatim>\<open>Acquire\<close> calls of a log.\<close>

fun list_calls :: "event list \<Rightarrow> ListRequest list" where
  "list_calls [] = []"
| "list_calls (Rpc_List req # es) = req # list_calls es"
| "list_calls (e # es) = list_calls es"

fun acquire_calls :: "event list \<Rightarrow> AcquireRequest list" where
  "acquire_calls [] = []"
| "acquire_calls (Rpc_Acquire req # es) = req # acquire_calls es"
| "acquire_calls (e # es) = acquire_calls es"

text \<open>The part of the log that a run added: the log after it, without the log before it.\<close>

definition added :: "'w \<times> 'e list \<Rightarrow> 'w \<times> 'e list \<Rightarrow> 'e list" where
  "added \<sigma> \<sigma>' = drop (length (snd \<sigma>)) (snd \<sigma>')"

section \<open>Test doubles\<close>

text \<open>
  Implementations of the interfaces that answer every call with a fixed result. Their
  world is the number of calls they have answered.
\<close>

definition stub_Backend :: "error + HandleData \<Rightarrow> error option \<Rightarrow> nat Backend" where
  "stub_Backend r e =
     \<lparr>backend_Acquire = (\<lambda>owner ns name exp meta n. (r, Suc n)),
      backend_Renew = (\<lambda>owner handleID exp meta n. (e, Suc n)),
      backend_Done = (\<lambda>owner handleID meta n. (e, Suc n))\<rparr>"

definition stub_Writer :: "error option \<Rightarrow> error option \<Rightarrow> nat Writer" where
  "stub_Writer addErr flushErr =
     \<lparr>wb_Add = (\<lambda>name n. (addErr, Suc n)),
      wb_Flush = (\<lambda>n. (flushErr, Suc n)),
      wb_Discard = Suc\<rparr>"

definition stub_Cache ::
  "error + bool \<Rightarrow> error option \<Rightarrow> error + nat Writer \<Rightarrow> error option \<Rightarrow> nat Cache" where
  "stub_Cache found addErr batch closeErr =
     \<lparr>cache_Contains = (\<lambda>name n. (found, Suc n)),
      cache_Add = (\<lambda>name n. (addErr, Suc n)),
      cache_AddBatch = (\<lambda>n. (batch, Suc n)),
      cache_Close = (\<lambda>n. (closeErr, Suc n))\<rparr>"

definition stub_V1Client :: "error + AcquireResponse \<Rightarrow> error + V1_ListClient \<Rightarrow> nat V1Client" where
  "stub_V1Client acquired listed =
     \<lparr>rpc_Acquire = (\<lambda>req n. (acquired, Suc n)),
      rpc_List = (\<lambda>req n. (listed, Suc n))\<rparr>"

definition stub_ClientConn :: "error option \<Rightarrow> nat ClientConn" where
  "stub_ClientConn closeErr = \<lparr>cc_Close = (\<lambda>n. (closeErr, Suc n))\<rparr>"

definition stub_Platform ::
  "error + nat Cache \<Rightarrow> error + nat ClientConn \<Rightarrow> nat V1Client \<Rightarrow> nat Platform" where
  "stub_Platform opened dialed rpc =
     \<lparr>OpenBadger = (\<lambda>path n. (opened, Suc n)),
      DialContext = (\<lambda>target n. (dialed, Suc n)),
      NewV1Client = (\<lambda>cc. rpc),
      Join = (\<lambda>dir elem. dir @ ''/'' @ elem)\<rparr>"

text \<open>Sample values for the examples.\<close>

definition sample_id :: "byte list" where
  "sample_id = [0, 1, 2, 3, 4, 5, 6, 7, 8, 9, 10, 11, 12, 13, 14, 15]"

definition sample_options :: ClientOptions where
  "sample_options = \<lparr>Owner = ''worker-1'', Namespace = ''jobs'', TTL = 30 * Second, Dir = ''var'', OnError = None\<rparr>"

definition long_lease_options :: ClientOptions where
  "long_lease_options = sample_options\<lparr>TTL := 4294967296000000000\<rparr>"

definition sample_request :: AcquireRequest where
  "sample_request =
     \<lparr>acq_Owner = ''worker-1'', acq_Name = ''job'', acq_Namespace = ''jobs'', acq_Ttl = 30,
      acq_Metadata = Map.empty\<rparr>"

definition sample_now :: Time where
  "sample_now = \<lparr>Unix = 1700000000, Nanosecond = 999999999\<rparr>"

definition sample_record :: "string \<Rightarrow> string \<Rightarrow> rpc_Handle" where
  "sample_record ns name =
     \<lparr>h_Id = sample_id, h_Name = name, h_Namespace = ns, h_ExpTime = 0, h_NumAcquired = 1,
      h_Metadata = Map.empty\<rparr>"

definition sample_data :: HandleData where
  "sample_data =
     \<lparr>hd_ID = UUID sample_id, hd_Name = ''job'', hd_Namespace = ''jobs'',
      hd_ExpTime = \<lparr>Unix = 1700000000, Nanosecond = 123456789\<rparr>, hd_NumAcquired = 1,
      hd_Metadata = Map.empty\<rparr>"

section \<open>Arithmetic of the conversions\<close>

lemma decimal_examples: "decimal 3 = ''3''" "decimal 16 = ''16''" "decimal 120 = ''120''"
  by code_simp+

lemma sint_int64_of_int:
  assumes "- 9223372036854775808 \<le> k" and "k < 9223372036854775808"
  shows "sint (word_of_int k :: int64) = k"
proof -
  have "signed_take_bit 63 k = k"
    by (rule signed_take_bit_int_eq_self) (use assms in simp_all)
  then show ?thesis by (simp add: sint_sbintrunc')
qed

lemma sdiv_nonneg: "0 \<le> (a::int) \<Longrightarrow> 0 < b \<Longrightarrow> a sdiv b = a div b"
  by (simp add: signed_divide_int_def sgn_if)

lemma smod_nonneg: "0 \<le> (a::int) \<Longrightarrow> 0 < b \<Longrightarrow> a smod b = a mod b"
  by (simp add: signed_modulo_int_def sgn_if)

text \<open>A 32-bit count of seconds, as nanoseconds, always fits the 64 bits of a duration.\<close>

lemma sint_Second_mult:
  "sint (Second * ucast (ttl :: uint32)) = 1000000000 * uint ttl"
proof -
  have b: "uint ttl < 4294967296" using uint_lt2p [of ttl] by simp
  have nn: "0 \<le> uint ttl" by simp
  have u: "(ucast ttl :: int64) = word_of_int (uint ttl)"
    by (simp only: ucast_eq)
  have s: "Second = word_of_int 1000000000"
    by (simp only: Second_def word_of_int_numeral)
  have eq: "Second * ucast ttl = (word_of_int (1000000000 * uint ttl) :: int64)"
    by (simp only: u s wi_hom_mult)
  have "sint (word_of_int (1000000000 * uint ttl) :: int64) = 1000000000 * uint ttl"
    by (rule sint_int64_of_int) (use b nn in linarith)+
  with eq show ?thesis by simp
qed

lemma expTime_eq:
  assumes "valid_Time now"
  shows "expTime now ttl = \<lparr>Unix = Unix now + uint ttl, Nanosecond = Nanosecond now\<rparr>"
proof -
  have nn: "0 \<le> 1000000000 * uint ttl" by simp
  have d: "(1000000000 * uint ttl) sdiv 1000000000 = uint ttl"
    using sdiv_nonneg [OF nn, of 1000000000] by simp
  have m: "(1000000000 * uint ttl) smod 1000000000 = 0"
    using smod_nonneg [OF nn, of 1000000000] by simp
  show ?thesis
    using assms by (simp add: expTime_def Add_def sint_Second_mult d m valid_Time_def)
qed

lemma millis_split:
  "millis_since_epoch t = Unix t * 1000 + int (Nanosecond t) div 1000000"
  unfolding millis_since_epoch_def by linarith

lemma quo64_nanos:
  assumes "n < 1000000000"
  shows "quo64 (word_of_nat n) 1000000 = word_of_int (int n div 1000000)"
proof -
  have "sint (word_of_int (int n) :: int64) = int n"
    by (rule sint_int64_of_int) (use assms in linarith)+
  then show ?thesis by (simp add: quo64_def sdiv_nonneg)
qed

lemma convertHandle_ExpTime:
  assumes "valid_Time (hd_ExpTime data)"
  shows "h_ExpTime (convertHandle data) = word_of_int (millis_since_epoch (hd_ExpTime data))"
  using assms
  by (simp add: convertHandle_def valid_Time_def quo64_nanos millis_split)

lemma ttlSeconds_eq:
  "ttlSeconds o' = word_of_int (sint (TTL o') sdiv 1000000000)"
  by (simp add: ttlSeconds_def quo64_def Second_def ucast_down_wi is_down)

lemma ttlSeconds_uint:
  "uint (ttlSeconds o') = (sint (TTL o') sdiv 1000000000) mod 4294967296"
  by (simp add: ttlSeconds_eq uint_word_of_int)

lemma ttlSeconds_small:
  assumes "0 \<le> sint (TTL o')" and "sint (TTL o') < 4294967296000000000"
  shows "uint (ttlSeconds o') = sint (TTL o') div 1000000000"
proof -
  have "sint (TTL o') div 1000000000 < 4294967296"
    using assms(2) by linarith
  moreover have "0 \<le> sint (TTL o') div 1000000000"
    using assms(1) by linarith
  ultimately show ?thesis
    using assms(1) by (simp add: ttlSeconds_uint sdiv_nonneg)
qed

lemma norm_Some:
  "norm fresh (Some v) =
     v\<lparr>Owner := (if Owner v = [] then fresh else Owner v),
       TTL := (if sint (TTL v) < 1000000000 then 600000000000 else TTL v),
       Dir := (if Dir v = [] then ''data'' else Dir v)\<rparr>"
  by (simp add: norm_def Let_def word_sless_alt Second_def Minute_def)

lemma norm_None:
  "norm fresh None =
     \<lparr>Owner = fresh, Namespace = [], TTL = 600000000000, Dir = ''data'', OnError = None\<rparr>"
  by (simp add: norm_def Let_def zero_ClientOptions_def word_sless_alt Second_def Minute_def)

section \<open>The service adapter: translation and validation\<close>

text \<open>
  C1. An Acquire request with a non-empty owner and a non-empty name is answered with a
  wire response that carries the backend's three-way outcome: "already held" becomes
  status HELD without a handle, "already done" becomes status DONE without a handle,
  success becomes status OK with the full handle record: the backend's identifier
  bytes, name, namespace, acquisition count (as an unsigned 32-bit integer) and
  metadata, and its expiration in milliseconds since the epoch. In every response of
  the procedure a handle is present exactly when the status is OK. Any other backend
  error is returned as it is. The backend is called once, with the request's owner,
  namespace, name and metadata and the expiration computed from its TTL.
\<close>

theorem service_Acquire_translates:
  assumes "acq_Owner req \<noteq> []" and "acq_Name req \<noteq> []"
    and "backend_Acquire (svc_b s) (acq_Owner req) (acq_Namespace req) (acq_Name req)
           (expTime now (acq_Ttl req)) (acq_Metadata req) (fst \<sigma>) = (r, b')"
  shows "(r = Inl ErrAcquired \<longrightarrow>
            fst (service_Acquire s now req \<sigma>) = Inr \<lparr>res_Status = HELD, res_Handle = None\<rparr>)
       \<and> (r = Inl ErrDone \<longrightarrow>
            fst (service_Acquire s now req \<sigma>) = Inr \<lparr>res_Status = DONE, res_Handle = None\<rparr>)
       \<and> (\<forall>data. r = Inr data \<longrightarrow>
            fst (service_Acquire s now req \<sigma>)
              = Inr \<lparr>res_Status = OK,
                     res_Handle = Some
                       \<lparr>h_Id = bytes (hd_ID data),
                        h_Name = hd_Name data,
                        h_Namespace = hd_Namespace data,
                        h_ExpTime = (word_of_int (Unix (hd_ExpTime data)) :: int64) * 1000
                                    + quo64 (word_of_nat (Nanosecond (hd_ExpTime data))) 1000000,
                        h_NumAcquired = word_of_int (hd_NumAcquired data),
                        h_Metadata = hd_Metadata data\<rparr>\<rparr>
            \<and> (valid_Time (hd_ExpTime data) \<longrightarrow>
                 (word_of_int (Unix (hd_ExpTime data)) :: int64) * 1000
                   + quo64 (word_of_nat (Nanosecond (hd_ExpTime data))) 1000000
                   = word_of_int (millis_since_epoch (hd_ExpTime data))))
       \<and> (\<forall>resp. fst (service_Acquire s now req \<sigma>) = Inr resp \<longrightarrow>
            (res_Handle resp \<noteq> None) = (res_Status resp = OK))
       \<and> (\<forall>err. r = Inl err \<and> err \<noteq> ErrAcquired \<and> err \<noteq> ErrDone \<longrightarrow>
            fst (service_Acquire s now req \<sigma>) = Inl err)
       \<and> snd (service_Acquire s now req \<sigma>)
            = (b', snd \<sigma> @ [Backend_Acquire (acq_Owner req) (acq_Namespace req) (acq_Name req)
                                (expTime now (acq_Ttl req)) (acq_Metadata req)])"
proof -
  have rec: "convertHandle data =
      \<lparr>h_Id = bytes (hd_ID data),
       h_Name = hd_Name data,
       h_Namespace = hd_Namespace data,
       h_ExpTime = (word_of_int (Unix (hd_ExpTime data)) :: int64) * 1000
                                    + quo64 (word_of_nat (Nanosecond (hd_ExpTime data))) 1000000,
       h_NumAcquired = word_of_int (hd_NumAcquired data),
       h_Metadata = hd_Metadata data\<rparr>" for data
    by (simp add: convertHandle_def Let_def)
  have run: "service_Acquire s now req \<sigma> =
      ((case r of
          Inl err \<Rightarrow>
            if err = ErrDone then Inr \<lparr>res_Status = DONE, res_Handle = None\<rparr>
            else if err = ErrAcquired then Inr \<lparr>res_Status = HELD, res_Handle = None\<rparr>
            else Inl err
        | Inr data \<Rightarrow> Inr \<lparr>res_Status = OK, res_Handle = Some (convertHandle data)\<rparr>),
       (b', snd \<sigma> @ [Backend_Acquire (acq_Owner req) (acq_Namespace req) (acq_Name req)
                         (expTime now (acq_Ttl req)) (acq_Metadata req)]))"
    using assms
    by (simp add: service_Acquire_def invoke_def split: sum.splits)
  have ok: "fst (service_Acquire s now req \<sigma>)
              = Inr \<lparr>res_Status = OK,
                     res_Handle = Some
                       \<lparr>h_Id = bytes (hd_ID data),
                        h_Name = hd_Name data,
                        h_Namespace = hd_Namespace data,
                        h_ExpTime = (word_of_int (Unix (hd_ExpTime data)) :: int64) * 1000
                                    + quo64 (word_of_nat (Nanosecond (hd_ExpTime data))) 1000000,
                        h_NumAcquired = word_of_int (hd_NumAcquired data),
                        h_Metadata = hd_Metadata data\<rparr>\<rparr>" if "r = Inr data" for data
    using that rec [of data] by (simp add: run)
  have iff: "(res_Handle resp \<noteq> None) = (res_Status resp = OK)"
    if "fst (service_Acquire s now req \<sigma>) = Inr resp" for resp
    using that by (auto simp: run split: sum.splits if_splits)
  have ms: "(word_of_int (Unix (hd_ExpTime data)) :: int64) * 1000
              + quo64 (word_of_nat (Nanosecond (hd_ExpTime data))) 1000000
              = word_of_int (millis_since_epoch (hd_ExpTime data))"
    if "valid_Time (hd_ExpTime data)" for data :: HandleData
    using convertHandle_ExpTime [OF that] by (simp add: convertHandle_def Let_def)
  show ?thesis
    using ok iff ms
    by (auto simp: run)
qed

theorem service_Acquire_translates_witness:
  "fst (service_Acquire \<lparr>svc_b = stub_Backend (Inl ErrAcquired) None\<rparr> sample_now sample_request (0, []))
     = Inr \<lparr>res_Status = HELD, res_Handle = None\<rparr>
 \<and> fst (service_Acquire \<lparr>svc_b = stub_Backend (Inl ErrDone) None\<rparr> sample_now sample_request (0, []))
     = Inr \<lparr>res_Status = DONE, res_Handle = None\<rparr>
 \<and> fst (service_Acquire \<lparr>svc_b = stub_Backend (Inr sample_data) None\<rparr> sample_now sample_request (0, []))
     = Inr \<lparr>res_Status = OK,
            res_Handle = Some
              \<lparr>h_Id = [0, 1, 2, 3, 4, 5, 6, 7, 8, 9, 10, 11, 12, 13, 14, 15],
               h_Name = ''job'',
               h_Namespace = ''jobs'',
               h_ExpTime = 1700000000123,
               h_NumAcquired = 1,
               h_Metadata = Map.empty\<rparr>\<rparr>"
  using service_Acquire_translates
          [of sample_request "\<lparr>svc_b = stub_Backend (Inl ErrAcquired) None\<rparr>" sample_now "(0, [])"
              "Inl ErrAcquired" 1]
        service_Acquire_translates
          [of sample_request "\<lparr>svc_b = stub_Backend (Inl ErrDone) None\<rparr>" sample_now "(0, [])"
              "Inl ErrDone" 1]
        service_Acquire_translates
          [of sample_request "\<lparr>svc_b = stub_Backend (Inr sample_data) None\<rparr>" sample_now "(0, [])"
              "Inr sample_data" 1]
  by (simp add: sample_request_def stub_Backend_def valid_Time_def)
     (simp add: sample_data_def sample_id_def millis_since_epoch_def)

text \<open>
  C3. Structurally invalid requests are refused before the backend is reached: Acquire
  with an empty owner or an empty name, Renew and Done with an empty owner or a handle
  identifier that is not 16 bytes long. Each returns an invalid-argument failure and
  leaves the backend's state and the log of backend calls as they were.
\<close>

theorem service_rejects_invalid:
  "(acq_Owner areq = [] \<or> acq_Name areq = [] \<longrightarrow>
      (\<exists>msg. service_Acquire s now areq \<sigma> = (Inl (InvalidArgument msg), \<sigma>)))
 \<and> (ren_Owner rreq = [] \<or> length (ren_HandleId rreq) \<noteq> 16 \<longrightarrow>
      (\<exists>msg. service_Renew s now rreq \<sigma> = (Inl (InvalidArgument msg), \<sigma>)))
 \<and> (don_Owner dreq = [] \<or> length (don_HandleId dreq) \<noteq> 16 \<longrightarrow>
      (\<exists>msg. service_Done s dreq \<sigma> = (Inl (InvalidArgument msg), \<sigma>)))"
  by (auto simp: service_Acquire_def service_Renew_def service_Done_def FromBytes_def)

theorem service_rejects_invalid_witness:
  "(\<exists>msg. service_Acquire \<lparr>svc_b = stub_Backend (Inr sample_data) None\<rparr> sample_now
             (sample_request\<lparr>acq_Name := []\<rparr>) (0, [])
           = (Inl (InvalidArgument msg), (0, [])))
 \<and> (\<exists>msg. service_Renew \<lparr>svc_b = stub_Backend (Inr sample_data) None\<rparr> sample_now
             \<lparr>ren_Owner = ''worker-1'', ren_HandleId = [1, 2, 3], ren_Ttl = 30, ren_Metadata = Map.empty\<rparr> (0, [])
           = (Inl (InvalidArgument msg), (0, [])))
 \<and> (\<exists>msg. service_Done \<lparr>svc_b = stub_Backend (Inr sample_data) None\<rparr>
             \<lparr>don_Owner = [], don_HandleId = sample_id, don_Metadata = Map.empty\<rparr> (0, [])
           = (Inl (InvalidArgument msg), (0, [])))"
  using service_rejects_invalid
          [of "sample_request\<lparr>acq_Name := []\<rparr>"
              "\<lparr>svc_b = stub_Backend (Inr sample_data) None\<rparr>" sample_now "(0, [])"
              "\<lparr>ren_Owner = ''worker-1'', ren_HandleId = [1, 2, 3], ren_Ttl = 30, ren_Metadata = Map.empty\<rparr>"
              "\<lparr>don_Owner = [], don_HandleId = sample_id, don_Metadata = Map.empty\<rparr>"]
  by simp

text \<open>
  The log is not silent: a request that passes validation makes exactly one backend
  call, with the arguments of the request.
\<close>

lemma service_valid_invokes_once:
  "(acq_Owner areq \<noteq> [] \<and> acq_Name areq \<noteq> [] \<longrightarrow>
      added \<sigma> (snd (service_Acquire s now areq \<sigma>))
        = [Backend_Acquire (acq_Owner areq) (acq_Namespace areq) (acq_Name areq)
             (expTime now (acq_Ttl areq)) (acq_Metadata areq)])
 \<and> (ren_Owner rreq \<noteq> [] \<and> length (ren_HandleId rreq) = 16 \<longrightarrow>
      added \<sigma> (snd (service_Renew s now rreq \<sigma>))
        = [Backend_Renew (ren_Owner rreq) (UUID (ren_HandleId rreq))
             (expTime now (ren_Ttl rreq)) (ren_Metadata rreq)])
 \<and> (don_Owner dreq \<noteq> [] \<and> length (don_HandleId dreq) = 16 \<longrightarrow>
      added \<sigma> (snd (service_Done s dreq \<sigma>))
        = [Backend_Done (don_Owner dreq) (UUID (don_HandleId dreq)) (don_Metadata dreq)])"
  by (auto simp: service_Acquire_def service_Renew_def service_Done_def FromBytes_def
                 invoke_def added_def split: sum.splits prod.splits option.splits)

section \<open>Client options\<close>

text \<open>
  C6. Normalisation of the options: the owner is the given owner when that is not
  empty and the freshly generated identifier otherwise; the TTL is the given TTL when
  it is at least one second and exactly ten minutes (600 seconds, in nanoseconds)
  otherwise; the directory is the given directory when that is not empty and "data"
  otherwise. Namespace and error callback are kept. Without options (nil) all three
  take their defaults.
\<close>

theorem norm_defaults:
  "Owner (norm fresh (Some v)) = (if Owner v = [] then fresh else Owner v)
 \<and> sint (TTL (norm fresh (Some v)))
     = (if sint (TTL v) < 1000000000 then 600000000000 else sint (TTL v))
 \<and> Dir (norm fresh (Some v)) = (if Dir v = [] then ''data'' else Dir v)
 \<and> Namespace (norm fresh (Some v)) = Namespace v
 \<and> OnError (norm fresh (Some v)) = OnError v
 \<and> Owner (norm fresh None) = fresh
 \<and> sint (TTL (norm fresh None)) = 600000000000
 \<and> Dir (norm fresh None) = ''data''"
  by (simp add: norm_Some norm_None)

text \<open>
  C9. Normalisation works on a copy: every struct that existed before the call is
  unchanged after it, the returned pointer is a new cell, and a nil receiver is
  accepted and gives the fully defaulted configuration.
\<close>

theorem norm_at_frame:
  "take (length h) (snd (norm_at fresh o' h)) = h
 \<and> (\<forall>a < length h. snd (norm_at fresh o' h) ! a = h ! a)
 \<and> fst (norm_at fresh o' h) = length h
 \<and> length (snd (norm_at fresh o' h)) = Suc (length h)
 \<and> snd (norm_at fresh o' h) ! fst (norm_at fresh o' h) = norm fresh (map_option (\<lambda>a. h ! a) o')
 \<and> snd (norm_at fresh None h) ! fst (norm_at fresh None h)
     = \<lparr>Owner = fresh, Namespace = [], TTL = 600000000000, Dir = ''data'', OnError = None\<rparr>"
  by (simp add: norm_at_def norm_None nth_append)

theorem norm_at_frame_witness:
  "snd (norm_at ''fresh'' (Some 0) [zero_ClientOptions, sample_options]) ! 0 = zero_ClientOptions
 \<and> snd (norm_at ''fresh'' (Some 0) [zero_ClientOptions, sample_options]) ! 1 = sample_options
 \<and> snd (norm_at ''fresh'' (Some 0) [zero_ClientOptions, sample_options]) ! 2
     = \<lparr>Owner = ''fresh'', Namespace = [], TTL = 600000000000, Dir = ''data'', OnError = None\<rparr>"
  using norm_at_frame [of "[zero_ClientOptions, sample_options]" "''fresh''" "Some 0"]
  by (simp add: norm_at_def norm_Some zero_ClientOptions_def)

section \<open>Expiration and time-to-live\<close>

lemma added_append [simp]: "added \<sigma> (w, snd \<sigma> @ evs) = evs"
  by (simp add: added_def)

lemma added_same [simp]: "added \<sigma> \<sigma> = []"
  by (simp add: added_def)

lemma acquire_calls_append [simp]:
  "acquire_calls (xs @ ys) = acquire_calls xs @ acquire_calls ys"
  by (induction xs rule: acquire_calls.induct) simp_all

text \<open>Every remote Acquire call of the client carries the TTL that \<^verbatim>\<open>ttlSeconds\<close> computes.\<close>

lemma client_Acquire_sends_ttl:
  "\<forall>req \<in> set (acquire_calls (added \<sigma> (snd (client_Acquire c name meta \<sigma>)))).
     acq_Ttl req = ttlSeconds (cl_opt c)"
  by (auto simp: client_Acquire_def invoke_def Let_def
           split: option.splits sum.splits prod.splits if_splits)

text \<open>
  C7, as the code has it. The expiration handed to the backend is the server's clock
  reading plus the request's TTL in whole seconds (for acquisition and for renewal).
  The expiration of a wire handle record is the backend's timestamp in milliseconds
  since the epoch as a signed 64-bit integer: equal to it modulo \<open>2^64\<close>, and exactly
  equal when the count fits 64 bits. The TTL of every Acquire call the client sends is
  its configured duration truncated to whole seconds as an unsigned 32-bit integer:
  equal to it modulo \<open>2^32\<close>, and exactly equal for a duration from zero up to, but
  not including, \<open>2^32\<close> seconds.
\<close>

theorem expiration_and_ttl:
  "(valid_Time now \<longrightarrow>
      expTime now ttl = \<lparr>Unix = Unix now + uint ttl, Nanosecond = Nanosecond now\<rparr>)
 \<and> (acq_Owner areq \<noteq> [] \<and> acq_Name areq \<noteq> [] \<longrightarrow>
      added \<sigma> (snd (service_Acquire s now areq \<sigma>))
        = [Backend_Acquire (acq_Owner areq) (acq_Namespace areq) (acq_Name areq)
             (expTime now (acq_Ttl areq)) (acq_Metadata areq)])
 \<and> (ren_Owner rreq \<noteq> [] \<and> length (ren_HandleId rreq) = 16 \<longrightarrow>
      added \<sigma> (snd (service_Renew s now rreq \<sigma>))
        = [Backend_Renew (ren_Owner rreq) (UUID (ren_HandleId rreq))
             (expTime now (ren_Ttl rreq)) (ren_Metadata rreq)])
 \<and> (valid_Time (hd_ExpTime data) \<longrightarrow>
      h_ExpTime (convertHandle data) = word_of_int (millis_since_epoch (hd_ExpTime data)))
 \<and> (valid_Time (hd_ExpTime data)
      \<and> - 9223372036854775808 \<le> millis_since_epoch (hd_ExpTime data)
      \<and> millis_since_epoch (hd_ExpTime data) < 9223372036854775808 \<longrightarrow>
      sint (h_ExpTime (convertHandle data)) = millis_since_epoch (hd_ExpTime data))
 \<and> (\<forall>req \<in> set (acquire_calls (added \<tau> (snd (client_Acquire c name meta \<tau>)))).
      acq_Ttl req = ttlSeconds (cl_opt c))
 \<and> uint (ttlSeconds o') = (sint (TTL o') sdiv 1000000000) mod 4294967296
 \<and> (0 \<le> sint (TTL o') \<and> sint (TTL o') < 4294967296000000000 \<longrightarrow>
      uint (ttlSeconds o') = sint (TTL o') div 1000000000)"
proof (intro conjI impI)
  show "expTime now ttl = \<lparr>Unix = Unix now + uint ttl, Nanosecond = Nanosecond now\<rparr>"
    if "valid_Time now"
    using that by (rule expTime_eq)
  show "added \<sigma> (snd (service_Acquire s now areq \<sigma>))
        = [Backend_Acquire (acq_Owner areq) (acq_Namespace areq) (acq_Name areq)
             (expTime now (acq_Ttl areq)) (acq_Metadata areq)]"
    if "acq_Owner areq \<noteq> [] \<and> acq_Name areq \<noteq> []"
    using that service_valid_invokes_once [of areq \<sigma> s now] by blast
  show "added \<sigma> (snd (service_Renew s now rreq \<sigma>))
        = [Backend_Renew (ren_Owner rreq) (UUID (ren_HandleId rreq))
             (expTime now (ren_Ttl rreq)) (ren_Metadata rreq)]"
    if "ren_Owner rreq \<noteq> [] \<and> length (ren_HandleId rreq) = 16"
    using that service_valid_invokes_once [of _ \<sigma> s now rreq] by blast
  show "h_ExpTime (convertHandle data) = word_of_int (millis_since_epoch (hd_ExpTime data))"
    if "valid_Time (hd_ExpTime data)"
    using that by (rule convertHandle_ExpTime)
  show "sint (h_ExpTime (convertHandle data)) = millis_since_epoch (hd_ExpTime data)"
    if "valid_Time (hd_ExpTime data)
      \<and> - 9223372036854775808 \<le> millis_since_epoch (hd_ExpTime data)
      \<and> millis_since_epoch (hd_ExpTime data) < 9223372036854775808"
    using that by (simp add: convertHandle_ExpTime sint_int64_of_int)
  show "\<forall>req \<in> set (acquire_calls (added \<tau> (snd (client_Acquire c name meta \<tau>)))).
      acq_Ttl req = ttlSeconds (cl_opt c)"
    by (rule client_Acquire_sends_ttl)
  show "uint (ttlSeconds o') = (sint (TTL o') sdiv 1000000000) mod 4294967296"
    by (rule ttlSeconds_uint)
  show "uint (ttlSeconds o') = sint (TTL o') div 1000000000"
    if "0 \<le> sint (TTL o') \<and> sint (TTL o') < 4294967296000000000"
    using that by (simp add: ttlSeconds_small)
qed

theorem expiration_and_ttl_witness:
  "expTime sample_now 30 = \<lparr>Unix = 1700000030, Nanosecond = 999999999\<rparr>
 \<and> sint (h_ExpTime (convertHandle sample_data)) = 1700000000123
 \<and> uint (ttlSeconds sample_options) = 30"
proof -
  note t = expiration_and_ttl [where now = sample_now and ttl = 30 and data = sample_data
      and o' = sample_options and areq = sample_request and \<sigma> = "(0 :: nat, [])"
      and s = "\<lparr>svc_b = stub_Backend (Inr sample_data) None\<rparr>"
      and rreq = "\<lparr>ren_Owner = ''worker-1'', ren_HandleId = sample_id, ren_Ttl = 30,
                   ren_Metadata = Map.empty\<rparr>"
      and \<tau> = "(0 :: nat, [])" and name = "''job''" and meta = Map.empty
      and c = "\<lparr>cl_rpc = stub_V1Client (Inr \<lparr>res_Status = HELD, res_Handle = None\<rparr>) (Inl EOF),
                cl_opt = sample_options,
                cl_cache = Some (stub_Cache (Inr False) None (Inl EOF) None),
                cl_ownCC = None\<rparr>"]
  have v: "valid_Time sample_now"
    by (simp add: valid_Time_def sample_now_def)
  have d: "valid_Time (hd_ExpTime sample_data)"
    by (simp add: valid_Time_def sample_data_def)
  have m: "millis_since_epoch (hd_ExpTime sample_data) = 1700000000123"
    by (simp add: millis_since_epoch_def sample_data_def)
  have o: "sint (TTL sample_options) = 30000000000"
    by (simp add: sample_options_def Second_def)
  from t have "valid_Time sample_now \<longrightarrow>
      expTime sample_now 30 = \<lparr>Unix = Unix sample_now + uint (30 :: uint32), Nanosecond = Nanosecond sample_now\<rparr>"
    by blast
  with v have "expTime sample_now 30 = \<lparr>Unix = Unix sample_now + uint (30 :: uint32), Nanosecond = Nanosecond sample_now\<rparr>"
    by blast
  then have 1: "expTime sample_now 30 = \<lparr>Unix = 1700000030, Nanosecond = 999999999\<rparr>"
    by (simp add: sample_now_def)
  from t have "valid_Time (hd_ExpTime sample_data)
      \<and> - 9223372036854775808 \<le> millis_since_epoch (hd_ExpTime sample_data)
      \<and> millis_since_epoch (hd_ExpTime sample_data) < 9223372036854775808 \<longrightarrow>
      sint (h_ExpTime (convertHandle sample_data)) = millis_since_epoch (hd_ExpTime sample_data)"
    by blast
  with d m have 2: "sint (h_ExpTime (convertHandle sample_data)) = 1700000000123"
    by simp
  from t have "0 \<le> sint (TTL sample_options) \<and> sint (TTL sample_options) < 4294967296000000000 \<longrightarrow>
      uint (ttlSeconds sample_options) = sint (TTL sample_options) div 1000000000"
    by blast
  with o have 3: "uint (ttlSeconds sample_options) = 30"
    by simp
  from 1 2 3 show ?thesis by blast
qed

text \<open>
  C7 as the specification words it fails in two places. A configured duration of
  \<open>2^32\<close> seconds is kept by the normalisation, and the request the client sends
  carries a TTL of 0 seconds. An expiration \<open>2^61\<close> seconds after the epoch, which is
  \<open>2^61 * 1000\<close> milliseconds after it, goes into the wire record as 0.
\<close>

theorem expiration_and_ttl_counterexample:
  "map acq_Ttl (acquire_calls (snd (snd (client_Acquire
      \<lparr>cl_rpc = stub_V1Client (Inr \<lparr>res_Status = HELD, res_Handle = None\<rparr>) (Inl EOF),
       cl_opt = norm ''fresh'' (Some long_lease_options),
       cl_cache = Some (stub_Cache (Inr False) None (Inl EOF) None),
       cl_ownCC = None\<rparr> ''job'' Map.empty (0, []))))) = [0]
 \<and> sint (TTL (norm ''fresh'' (Some long_lease_options))) div 1000000000 = 4294967296
 \<and> h_ExpTime (convertHandle
       (sample_data\<lparr>hd_ExpTime := \<lparr>Unix = 2305843009213693952, Nanosecond = 0\<rparr>\<rparr>)) = 0
 \<and> millis_since_epoch \<lparr>Unix = 2305843009213693952, Nanosecond = 0\<rparr> = 2305843009213693952000"
proof -
  have kept: "sint (TTL (norm ''fresh'' (Some long_lease_options))) div 1000000000 = 4294967296"
    by (simp add: norm_Some long_lease_options_def sample_options_def)
  have sent: "ttlSeconds (norm ''fresh'' (Some long_lease_options)) = 0"
    by (simp add: norm_Some long_lease_options_def sample_options_def ttlSeconds_eq
          signed_divide_int_def)
  have call: "map acq_Ttl (acquire_calls (snd (snd (client_Acquire
      \<lparr>cl_rpc = stub_V1Client (Inr \<lparr>res_Status = HELD, res_Handle = None\<rparr>) (Inl EOF),
       cl_opt = norm ''fresh'' (Some long_lease_options),
       cl_cache = Some (stub_Cache (Inr False) None (Inl EOF) None),
       cl_ownCC = None\<rparr> ''job'' Map.empty (0, []))))) = [0]"
    by (simp add: client_Acquire_def invoke_def stub_V1Client_def stub_Cache_def sent)
  have wraps: "h_ExpTime (convertHandle
       (sample_data\<lparr>hd_ExpTime := \<lparr>Unix = 2305843009213693952, Nanosecond = 0\<rparr>\<rparr>)) = 0
     \<and> millis_since_epoch \<lparr>Unix = 2305843009213693952, Nanosecond = 0\<rparr> = 2305843009213693952000"
    by (simp add: convertHandle_def sample_data_def quo64_def millis_since_epoch_def)
  from call kept wraps show ?thesis
    by blast
qed

section \<open>The client: Acquire\<close>

text \<open>
  C5. When the cache lookup reports the name as present, Acquire fails with
  \<^verbatim>\<open>ErrDone\<close> and the lookup is the only call it makes. Conversely, whenever Acquire
  makes a remote Acquire call, the cache lookup has reported absence.
\<close>

theorem client_Acquire_cache_first:
  "(\<forall>cache. cl_cache c = Some cache \<and> fst (cache_Contains cache name (fst \<sigma>)) = Inr True \<longrightarrow>
      fst (client_Acquire c name meta \<sigma>) = Err ErrDone
      \<and> added \<sigma> (snd (client_Acquire c name meta \<sigma>)) = [Cache_Contains name]
      \<and> fst (snd (client_Acquire c name meta \<sigma>)) = snd (cache_Contains cache name (fst \<sigma>)))
 \<and> (acquire_calls (added \<sigma> (snd (client_Acquire c name meta \<sigma>))) \<noteq> [] \<longrightarrow>
      (\<exists>cache. cl_cache c = Some cache \<and> fst (cache_Contains cache name (fst \<sigma>)) = Inr False))"
  by (auto simp: client_Acquire_def invoke_def Let_def
           split: option.splits sum.splits prod.splits if_splits)

theorem client_Acquire_cache_first_witness:
  "client_Acquire
      \<lparr>cl_rpc = stub_V1Client (Inr \<lparr>res_Status = HELD, res_Handle = None\<rparr>) (Inl EOF),
       cl_opt = sample_options,
       cl_cache = Some (stub_Cache (Inr True) None (Inl EOF) None),
       cl_ownCC = None\<rparr> ''job'' Map.empty (0, [])
     = (Err ErrDone, (1, [Cache_Contains ''job'']))"
  using client_Acquire_cache_first
          [of "\<lparr>cl_rpc = stub_V1Client (Inr \<lparr>res_Status = HELD, res_Handle = None\<rparr>) (Inl EOF),
                cl_opt = sample_options,
                cl_cache = Some (stub_Cache (Inr True) None (Inl EOF) None),
                cl_ownCC = None\<rparr>" "''job''" "(0, [])" Map.empty]
  by (simp add: stub_Cache_def added_def prod_eq_iff)

text \<open>
  C2, as the code has it. When the cache lookup reports absence and the remote call
  returns a response: status HELD gives \<^verbatim>\<open>ErrAcquired\<close> and no cache call follows;
  status DONE makes one insert of the name into the cache and gives \<^verbatim>\<open>ErrDone\<close>
  when the insert succeeds, the insert's error when it fails; status OK with a handle
  whose identifier has 16 bytes gives a handle built from that identifier, the
  response's metadata, the protocol client and the client's options.
\<close>

theorem client_Acquire_response:
  assumes "cl_cache c = Some cache"
    and "cache_Contains cache name (fst \<sigma>) = (Inr False, w1)"
    and "req = \<lparr>acq_Owner = Owner (cl_opt c), acq_Name = name,
                 acq_Namespace = Namespace (cl_opt c), acq_Ttl = ttlSeconds (cl_opt c),
                 acq_Metadata = meta\<rparr>"
    and "rpc_Acquire (cl_rpc c) req w1 = (Inr res, w2)"
  shows "(res_Status res = HELD \<longrightarrow>
            client_Acquire c name meta \<sigma>
              = (Err ErrAcquired, (w2, snd \<sigma> @ [Cache_Contains name, Rpc_Acquire req])))
       \<and> (res_Status res = DONE \<longrightarrow>
            client_Acquire c name meta \<sigma>
              = ((case fst (cache_Add cache name w2) of None \<Rightarrow> Err ErrDone | Some err \<Rightarrow> Err err),
                 (snd (cache_Add cache name w2),
                  snd \<sigma> @ [Cache_Contains name, Rpc_Acquire req, Cache_Add name])))
       \<and> (res_Status res = OK \<longrightarrow>
            (\<forall>h. res_Handle res = Some h \<and> length (h_Id h) = 16 \<longrightarrow>
               client_Acquire c name meta \<sigma>
                 = (Ok (newHandle (UUID (h_Id h)) (cl_rpc c) (h_Metadata h) (cl_opt c)),
                    (w2, snd \<sigma> @ [Cache_Contains name, Rpc_Acquire req]))))"
  using assms
  by (auto simp: client_Acquire_def invoke_def Let_def FromBytes_def
           split: option.splits prod.splits)

theorem client_Acquire_response_witness:
  "fst (client_Acquire
      \<lparr>cl_rpc = stub_V1Client (Inr \<lparr>res_Status = HELD, res_Handle = None\<rparr>) (Inl EOF),
       cl_opt = sample_options,
       cl_cache = Some (stub_Cache (Inr False) None (Inl EOF) None),
       cl_ownCC = None\<rparr> ''job'' Map.empty (0, [])) = Err ErrAcquired
 \<and> fst (client_Acquire
      \<lparr>cl_rpc = stub_V1Client (Inr \<lparr>res_Status = DONE, res_Handle = None\<rparr>) (Inl EOF),
       cl_opt = sample_options,
       cl_cache = Some (stub_Cache (Inr False) None (Inl EOF) None),
       cl_ownCC = None\<rparr> ''job'' Map.empty (0, [])) = Err ErrDone
 \<and> fst (client_Acquire
      \<lparr>cl_rpc = stub_V1Client
                  (Inr \<lparr>res_Status = OK, res_Handle = Some (sample_record ''jobs'' ''job'')\<rparr>) (Inl EOF),
       cl_opt = sample_options,
       cl_cache = Some (stub_Cache (Inr False) None (Inl EOF) None),
       cl_ownCC = None\<rparr> ''job'' Map.empty (0, []))
     = Ok (newHandle (UUID sample_id)
            (stub_V1Client
               (Inr \<lparr>res_Status = OK, res_Handle = Some (sample_record ''jobs'' ''job'')\<rparr>) (Inl EOF))
            Map.empty sample_options)"
proof -
  let ?req = "\<lparr>acq_Owner = Owner sample_options, acq_Name = ''job'',
               acq_Namespace = Namespace sample_options, acq_Ttl = ttlSeconds sample_options,
               acq_Metadata = Map.empty\<rparr>"
  let ?cache = "stub_Cache (Inr False) None (Inl EOF) None"
  let ?held = "\<lparr>res_Status = HELD, res_Handle = None\<rparr>"
  let ?done = "\<lparr>res_Status = DONE, res_Handle = None\<rparr>"
  let ?ok = "\<lparr>res_Status = OK, res_Handle = Some (sample_record ''jobs'' ''job'')\<rparr>"
  have 1: "fst (client_Acquire
      \<lparr>cl_rpc = stub_V1Client (Inr ?held) (Inl EOF), cl_opt = sample_options,
       cl_cache = Some ?cache, cl_ownCC = None\<rparr> ''job'' Map.empty (0, [])) = Err ErrAcquired"
    using client_Acquire_response
            [of "\<lparr>cl_rpc = stub_V1Client (Inr ?held) (Inl EOF), cl_opt = sample_options,
                   cl_cache = Some ?cache, cl_ownCC = None\<rparr>"
                ?cache "''job''" "(0, [])" 1 ?req Map.empty ?held 2]
    by (simp add: stub_Cache_def stub_V1Client_def)
  have 2: "fst (client_Acquire
      \<lparr>cl_rpc = stub_V1Client (Inr ?done) (Inl EOF), cl_opt = sample_options,
       cl_cache = Some ?cache, cl_ownCC = None\<rparr> ''job'' Map.empty (0, [])) = Err ErrDone"
    using client_Acquire_response
            [of "\<lparr>cl_rpc = stub_V1Client (Inr ?done) (Inl EOF), cl_opt = sample_options,
                   cl_cache = Some ?cache, cl_ownCC = None\<rparr>"
                ?cache "''job''" "(0, [])" 1 ?req Map.empty ?done 2]
    by (simp add: stub_Cache_def stub_V1Client_def)
  have 3: "fst (client_Acquire
      \<lparr>cl_rpc = stub_V1Client (Inr ?ok) (Inl EOF), cl_opt = sample_options,
       cl_cache = Some ?cache, cl_ownCC = None\<rparr> ''job'' Map.empty (0, []))
      = Ok (newHandle (UUID sample_id) (stub_V1Client (Inr ?ok) (Inl EOF)) Map.empty sample_options)"
    using client_Acquire_response
            [of "\<lparr>cl_rpc = stub_V1Client (Inr ?ok) (Inl EOF), cl_opt = sample_options,
                   cl_cache = Some ?cache, cl_ownCC = None\<rparr>"
                ?cache "''job''" "(0, [])" 1 ?req Map.empty ?ok 2]
    by (simp add: stub_Cache_def stub_V1Client_def sample_record_def sample_id_def)
  from 1 2 3 show ?thesis
    by blast
qed

text \<open>
  C2 as the specification words it fails in two places: with a DONE response and a
  cache whose insert fails, Acquire returns the insert's error and not
  \<^verbatim>\<open>ErrDone\<close>; with an OK response that carries no handle, Acquire returns nothing
  at all.
\<close>

theorem client_Acquire_response_counterexample:
  "client_Acquire
      \<lparr>cl_rpc = stub_V1Client (Inr \<lparr>res_Status = DONE, res_Handle = None\<rparr>) (Inl EOF),
       cl_opt = sample_options,
       cl_cache = Some (stub_Cache (Inr False) (Some (Failure ''disk full'')) (Inl EOF) None),
       cl_ownCC = None\<rparr> ''job'' Map.empty (0, [])
     = (Err (Failure ''disk full''),
        (3, [Cache_Contains ''job'',
             Rpc_Acquire \<lparr>acq_Owner = ''worker-1'', acq_Name = ''job'', acq_Namespace = ''jobs'',
                          acq_Ttl = 30, acq_Metadata = Map.empty\<rparr>,
             Cache_Add ''job'']))
 \<and> fst (client_Acquire
      \<lparr>cl_rpc = stub_V1Client (Inr \<lparr>res_Status = OK, res_Handle = None\<rparr>) (Inl EOF),
       cl_opt = sample_options,
       cl_cache = Some (stub_Cache (Inr False) None (Inl EOF) None),
       cl_ownCC = None\<rparr> ''job'' Map.empty (0, [])) = Panic NilDereference"
proof -
  have ttl: "ttlSeconds sample_options = 30"
    by (simp add: ttlSeconds_eq sample_options_def Second_def signed_divide_int_def)
  show ?thesis
    by (simp add: client_Acquire_def invoke_def stub_V1Client_def stub_Cache_def ttl)
       (simp add: sample_options_def)
qed

text \<open>
  C10, as the code has it. With an OK response, Acquire returns a handle exactly when
  the response carries a handle whose identifier has 16 bytes. When the handle is
  absent it panics on the read through the nil pointer, before the identifier is
  decoded; when the identifier has another length it panics in \<^verbatim>\<open>uuid.Must\<close> with the
  error of the decoding. In neither case does it return an error.
\<close>

theorem client_Acquire_OK_panics:
  assumes "cl_cache c = Some cache"
    and "cache_Contains cache name (fst \<sigma>) = (Inr False, w1)"
    and "req = \<lparr>acq_Owner = Owner (cl_opt c), acq_Name = name,
                 acq_Namespace = Namespace (cl_opt c), acq_Ttl = ttlSeconds (cl_opt c),
                 acq_Metadata = meta\<rparr>"
    and "rpc_Acquire (cl_rpc c) req w1 = (Inr res, w2)"
    and "res_Status res = OK"
  shows "(res_Handle res = None \<longrightarrow>
            fst (client_Acquire c name meta \<sigma>) = Panic NilDereference)
       \<and> (\<forall>h. res_Handle res = Some h \<and> length (h_Id h) \<noteq> 16 \<longrightarrow>
            (\<exists>err. FromBytes (h_Id h) = Inl err
                  \<and> fst (client_Acquire c name meta \<sigma>) = Panic (Must err)))
       \<and> ((\<exists>hnd. fst (client_Acquire c name meta \<sigma>) = Ok hnd)
            = (\<exists>h. res_Handle res = Some h \<and> length (h_Id h) = 16))
       \<and> (\<forall>err. fst (client_Acquire c name meta \<sigma>) \<noteq> Err err)"
  using assms
  by (auto simp: client_Acquire_def invoke_def Let_def FromBytes_def
           split: option.splits prod.splits)

theorem client_Acquire_OK_panics_witness:
  "fst (client_Acquire
      \<lparr>cl_rpc = stub_V1Client
                  (Inr \<lparr>res_Status = OK,
                        res_Handle = Some ((sample_record ''jobs'' ''job'')\<lparr>h_Id := [1, 2, 3]\<rparr>)\<rparr>) (Inl EOF),
       cl_opt = sample_options,
       cl_cache = Some (stub_Cache (Inr False) None (Inl EOF) None),
       cl_ownCC = None\<rparr> ''job'' Map.empty (0, [])) = Panic (Must (Failure ''invalid UUID (got 3 bytes)''))"
proof -
  let ?req = "\<lparr>acq_Owner = Owner sample_options, acq_Name = ''job'',
               acq_Namespace = Namespace sample_options, acq_Ttl = ttlSeconds sample_options,
               acq_Metadata = Map.empty\<rparr>"
  let ?cache = "stub_Cache (Inr False) None (Inl EOF) None"
  let ?res = "\<lparr>res_Status = OK,
               res_Handle = Some ((sample_record ''jobs'' ''job'')\<lparr>h_Id := [1, 2, 3]\<rparr>)\<rparr>"
  have fb: "FromBytes [1, 2, 3] = Inl (Failure ''invalid UUID (got 3 bytes)'')"
    by (simp add: FromBytes_def decimal.simps [of "Suc (Suc (Suc 0))"])
  show ?thesis
    using client_Acquire_OK_panics
            [of "\<lparr>cl_rpc = stub_V1Client (Inr ?res) (Inl EOF), cl_opt = sample_options,
                   cl_cache = Some ?cache, cl_ownCC = None\<rparr>"
                ?cache "''job''" "(0, [])" 1 ?req Map.empty ?res 2]
    by (simp add: stub_Cache_def stub_V1Client_def fb)
qed

text \<open>
  C10 as the specification words it fails for the absent handle: the panic is the nil
  dereference, and \<^verbatim>\<open>uuid.Must\<close> is not reached.
\<close>

theorem client_Acquire_OK_panics_counterexample:
  "client_Acquire
      \<lparr>cl_rpc = stub_V1Client (Inr \<lparr>res_Status = OK, res_Handle = None\<rparr>) (Inl (Failure ''unused'')),
       cl_opt = sample_options,
       cl_cache = Some (stub_Cache (Inr False) None (Inl (Failure ''unused'')) None),
       cl_ownCC = None\<rparr> ''task'' Map.empty (0, [])
     = (Panic NilDereference,
        (2, [Cache_Contains ''task'',
             Rpc_Acquire \<lparr>acq_Owner = ''worker-1'', acq_Name = ''task'', acq_Namespace = ''jobs'',
                          acq_Ttl = 30, acq_Metadata = Map.empty\<rparr>]))"
proof -
  have ttl: "ttlSeconds sample_options = 30"
    by (simp add: ttlSeconds_eq sample_options_def Second_def signed_divide_int_def)
  show ?thesis
    by (simp add: client_Acquire_def invoke_def stub_V1Client_def stub_Cache_def ttl)
       (simp add: sample_options_def)
qed


section \<open>The client: startup synchronisation\<close>

lemma recv_loop_Error:
  "recv_loop ns wb (Recv_Error err) \<sigma>
     = Some (if err = EOF then None else Some err, (fst \<sigma>, snd \<sigma> @ [Stream_Recv]))"
  by (subst recv_loop.simps) simp

lemma recv_loop_Handle:
  "recv_loop ns wb (Recv_Handle h res) \<sigma>
     = (if h_Namespace h = ns then
          (case invoke (Batch_Add (h_Name h)) (wb_Add wb (h_Name h))
                  (fst \<sigma>, snd \<sigma> @ [Stream_Recv]) of
             (Some err, \<sigma>') \<Rightarrow> Some (Some err, \<sigma>')
           | (None, \<sigma>') \<Rightarrow> recv_loop ns wb res \<sigma>')
        else recv_loop ns wb res (fst \<sigma>, snd \<sigma> @ [Stream_Recv]))"
  by (subst recv_loop.simps) simp

lemma stream_of_inject:
  "stream_of hs e = stream_of hs' e' \<Longrightarrow> hs = hs' \<and> e = e'"
proof (induction hs arbitrary: hs')
  case Nil
  then show ?case by (cases hs') simp_all
next
  case (Cons h hs)
  then show ?case by (cases hs') auto
qed

text \<open>On a stream that ends, the loop returns.\<close>

lemma recv_loop_terminates:
  "\<exists>y. recv_loop ns wb (stream_of hs e) \<sigma> = Some y"
proof (induction hs arbitrary: \<sigma>)
  case Nil
  show ?case by (simp add: recv_loop_Error)
next
  case (Cons h hs)
  show ?case
  proof (cases "h_Namespace h = ns")
    case False
    with Cons.IH [of "(fst \<sigma>, snd \<sigma> @ [Stream_Recv])"] show ?thesis
      by (simp add: recv_loop_Handle)
  next
    case True
    obtain r0 w0 where add: "wb_Add wb (h_Name h) (fst \<sigma>) = (r0, w0)"
      by (cases "wb_Add wb (h_Name h) (fst \<sigma>)")
    show ?thesis
    proof (cases r0)
      case (Some err)
      with add True show ?thesis
        by (simp add: recv_loop_Handle invoke_def)
    next
      case None
      with add True Cons.IH [of "(w0, snd \<sigma> @ [Stream_Recv, Batch_Add (h_Name h)])"]
      show ?thesis
        by (simp add: recv_loop_Handle invoke_def)
    qed
  qed
qed

text \<open>
  Whenever the loop returns, on any stream: it has logged only receipts and stagings,
  at least one receipt; and if it left by \<^verbatim>\<open>break\<close>, the stream was a finite one that
  ended with \<^verbatim>\<open>io.EOF\<close>, every record of it was received, and the names of those in
  the namespace were staged, in order.
\<close>

lemma recv_loop_returns:
  assumes "recv_loop ns wb res \<sigma> = Some y"
  shows "\<exists>evs. snd (snd y) = snd \<sigma> @ evs
       \<and> set evs \<subseteq> insert Stream_Recv (range Batch_Add)
       \<and> Stream_Recv \<in> set evs
       \<and> (fst y = None \<longrightarrow>
            (\<exists>hs. res = stream_of hs EOF \<and> evs = recv_events ns hs @ [Stream_Recv]))"
proof (rule recv_loop.raw_induct
    [where P = "\<lambda>ns wb res \<sigma> y. \<exists>evs. snd (snd y) = snd \<sigma> @ evs
       \<and> set evs \<subseteq> insert Stream_Recv (range Batch_Add)
       \<and> Stream_Recv \<in> set evs
       \<and> (fst y = None \<longrightarrow>
            (\<exists>hs. res = stream_of hs EOF \<and> evs = recv_events ns hs @ [Stream_Recv]))",
     OF _ assms], goal_cases)
  case (1 loop ns wb res \<sigma> y)
  note IH = "1"(1) and body = "1"(2)
  show ?case
  proof (cases res)
    case (Recv_Error err)
    with body have y: "y = (if err = EOF then None else Some err, (fst \<sigma>, snd \<sigma> @ [Stream_Recv]))"
      by (simp split: if_splits)
    have "res = stream_of [] EOF" if "err = EOF"
      using that Recv_Error by simp
    with y show ?thesis
      by (intro exI [of _ "[Stream_Recv]"]) (auto intro: exI [of _ "[]"])
  next
    case (Recv_Handle h res')
    show ?thesis
    proof (cases "h_Namespace h = ns")
      case False
      with body Recv_Handle
      have "loop ns wb res' (fst \<sigma>, snd \<sigma> @ [Stream_Recv]) = Some y"
        by simp
      from IH [OF this] obtain evs where
        log: "snd (snd y) = (snd \<sigma> @ [Stream_Recv]) @ evs"
        and only: "set evs \<subseteq> insert Stream_Recv (range Batch_Add)"
        and brk: "fst y = None \<longrightarrow>
                    (\<exists>hs. res' = stream_of hs EOF \<and> evs = recv_events ns hs @ [Stream_Recv])"
        by auto
      have "\<exists>hs. res = stream_of hs EOF \<and> Stream_Recv # evs = recv_events ns hs @ [Stream_Recv]"
        if "fst y = None"
      proof -
        from that brk obtain hs where
          "res' = stream_of hs EOF" and "evs = recv_events ns hs @ [Stream_Recv]"
          by blast
        with Recv_Handle False show ?thesis
          by (intro exI [of _ "h # hs"]) simp
      qed
      with log only show ?thesis
        by (intro exI [of _ "Stream_Recv # evs"]) auto
    next
      case True
      obtain r0 w0 where add: "wb_Add wb (h_Name h) (fst \<sigma>) = (r0, w0)"
        by (cases "wb_Add wb (h_Name h) (fst \<sigma>)")
      show ?thesis
      proof (cases r0)
        case (Some err)
        with body Recv_Handle True add
        have "y = (Some err, (w0, snd \<sigma> @ [Stream_Recv, Batch_Add (h_Name h)]))"
          by (simp add: invoke_def)
        then show ?thesis
          by (intro exI [of _ "[Stream_Recv, Batch_Add (h_Name h)]"]) simp
      next
        case None
        with body Recv_Handle True add
        have "loop ns wb res' (w0, snd \<sigma> @ [Stream_Recv, Batch_Add (h_Name h)]) = Some y"
          by (simp add: invoke_def)
        from IH [OF this] obtain evs where
          log: "snd (snd y) = (snd \<sigma> @ [Stream_Recv, Batch_Add (h_Name h)]) @ evs"
          and only: "set evs \<subseteq> insert Stream_Recv (range Batch_Add)"
          and brk: "fst y = None \<longrightarrow>
                      (\<exists>hs. res' = stream_of hs EOF \<and> evs = recv_events ns hs @ [Stream_Recv])"
          by auto
        let ?evs = "Stream_Recv # Batch_Add (h_Name h) # evs"
        have "\<exists>hs. res = stream_of hs EOF \<and> ?evs = recv_events ns hs @ [Stream_Recv]"
          if "fst y = None"
        proof -
          from that brk obtain hs where
            "res' = stream_of hs EOF" and "evs = recv_events ns hs @ [Stream_Recv]"
            by blast
          with Recv_Handle True show ?thesis
            by (intro exI [of _ "h # hs"]) simp
        qed
        with log only show ?thesis
          by (intro exI [of _ ?evs]) auto
      qed
    qed
  qed
qed

lemma discard_eq: "discard wb \<sigma> = (wb_Discard wb (fst \<sigma>), snd \<sigma> @ [Batch_Discard])"
  by (simp add: discard_def invoke_def)

lemma recv_events_only: "set (recv_events ns hs) \<subseteq> insert Stream_Recv (range Batch_Add)"
  by (induction hs) auto

lemma staged_names_append [simp]:
  "staged_names (xs @ ys) = staged_names xs @ staged_names ys"
  by (induction xs rule: staged_names.induct) simp_all

lemma list_calls_append [simp]:
  "list_calls (xs @ ys) = list_calls xs @ list_calls ys"
  by (induction xs rule: list_calls.induct) simp_all

lemma staged_names_recv_events:
  "staged_names (recv_events ns hs) = map h_Name (filter (\<lambda>h. h_Namespace h = ns) hs)"
  by (induction hs) simp_all

lemma list_calls_none:
  "(\<And>req. Rpc_List req \<notin> set evs) \<Longrightarrow> list_calls evs = []"
  by (induction evs rule: list_calls.induct) auto

lemma added_eq: "snd \<sigma>' = snd \<sigma> @ evs \<Longrightarrow> added \<sigma> \<sigma>' = evs"
  by (simp add: added_def)

text \<open>
  What \<^verbatim>\<open>fetchDone\<close> has done whenever it returns, on a client that has a cache: it
  has not panicked, its first call was the one \<^verbatim>\<open>List\<close> call, it opened at most one
  batch, it flushed only after a clean end of the stream with every matching name
  staged, and once it had started to receive, its last call discarded the batch. A
  failure of \<^verbatim>\<open>List\<close> is returned with no further call.
\<close>

lemma fetchDone_returns:
  assumes cache: "cl_cache c = Some cache"
    and req: "req = \<lparr>lst_Filter = Some \<lparr>flt_Prefix = Namespace (cl_opt c), flt_Status = Filter_DONE\<rparr>\<rparr>"
    and ret: "fetchDone c \<sigma> = Some (r, \<sigma>')"
  shows "\<exists>evs. snd \<sigma>' = snd \<sigma> @ Rpc_List req # evs
     \<and> (evs = [] \<or> (\<exists>evs'. evs = Cache_AddBatch # evs'
           \<and> set evs' \<subseteq> {Stream_Recv, Batch_Flush, Batch_Discard} \<union> range Batch_Add))
     \<and> (\<forall>p. r \<noteq> Panic p)
     \<and> (r = Ok () \<or> Batch_Flush \<in> set evs \<longrightarrow>
           (\<exists>hs. fst (rpc_List (cl_rpc c) req (fst \<sigma>)) = Inr (stream_of hs EOF)
                \<and> evs = Cache_AddBatch # recv_events (Namespace (cl_opt c)) hs
                           @ [Stream_Recv, Batch_Flush, Batch_Discard]))
     \<and> (Stream_Recv \<in> set evs \<longrightarrow> last evs = Batch_Discard)
     \<and> (\<forall>err. fst (rpc_List (cl_rpc c) req (fst \<sigma>)) = Inl err \<longrightarrow> r = Err err \<and> evs = [])"
proof -
  let ?ns = "Namespace (cl_opt c)"
  obtain rl wl where lst: "rpc_List (cl_rpc c) req (fst \<sigma>) = (rl, wl)"
    by (cases "rpc_List (cl_rpc c) req (fst \<sigma>)")
  show ?thesis
  proof (cases rl)
    case (Inl err)
    with lst req ret have "r = Err err" and "\<sigma>' = (wl, snd \<sigma> @ [Rpc_List req])"
      by (simp_all add: fetchDone_def invoke_def)
    with lst Inl show ?thesis
      by (intro exI [of _ "[]"]) simp
  next
    case (Inr s)
    obtain rb wb0 where bat: "cache_AddBatch cache wl = (rb, wb0)"
      by (cases "cache_AddBatch cache wl")
    show ?thesis
    proof (cases rb)
      case (Inl err)
      with lst Inr req bat cache ret
      have "r = Err err" and "\<sigma>' = (wb0, snd \<sigma> @ [Rpc_List req, Cache_AddBatch])"
        by (simp_all add: fetchDone_def invoke_def)
      with lst \<open>rl = Inr s\<close> show ?thesis
        by (intro exI [of _ "[Cache_AddBatch]"]) simp
    next
      case batch: (Inr wb)
      let ?\<sigma>2 = "(wb0, snd \<sigma> @ [Rpc_List req, Cache_AddBatch])"
      have pre: "fetchDone c \<sigma> =
          (case recv_loop ?ns wb s ?\<sigma>2 of
             None \<Rightarrow> None
           | Some (Some err, \<sigma>3) \<Rightarrow> Some (Err err, discard wb \<sigma>3)
           | Some (None, \<sigma>3) \<Rightarrow>
               (case invoke Batch_Flush (wb_Flush wb) \<sigma>3 of
                  (Some err, \<sigma>4) \<Rightarrow> Some (Err err, discard wb \<sigma>4)
                | (None, \<sigma>4) \<Rightarrow> Some (Ok (), discard wb \<sigma>4)))"
        using lst Inr req bat cache batch
        by (simp add: fetchDone_def invoke_def)
      with ret obtain r1 \<sigma>1 where run: "recv_loop ?ns wb s ?\<sigma>2 = Some (r1, \<sigma>1)"
        by (cases "recv_loop ?ns wb s ?\<sigma>2") auto
      from recv_loop_returns [OF run] obtain evs1 where
        log: "snd \<sigma>1 = snd ?\<sigma>2 @ evs1"
        and only: "set evs1 \<subseteq> insert Stream_Recv (range Batch_Add)"
        and recv: "Stream_Recv \<in> set evs1"
        and brk: "r1 = None \<longrightarrow> (\<exists>hs. s = stream_of hs EOF \<and> evs1 = recv_events ?ns hs @ [Stream_Recv])"
        by auto
      show ?thesis
      proof (cases r1)
        case (Some err)
        let ?evs = "Cache_AddBatch # evs1 @ [Batch_Discard]"
        from pre run Some ret have res: "r = Err err" "\<sigma>' = discard wb \<sigma>1"
          by simp_all
        have l: "snd (discard wb \<sigma>1) = snd \<sigma> @ Rpc_List req # ?evs"
          using log by (simp add: discard_eq)
        have noflush: "Batch_Flush \<notin> set ?evs"
          using only by auto
        have sub: "set (evs1 @ [Batch_Discard])
                     \<subseteq> {Stream_Recv, Batch_Flush, Batch_Discard} \<union> range Batch_Add"
          using only by auto
        show ?thesis
          using res l noflush sub lst \<open>rl = Inr s\<close>
          by (intro exI [of _ ?evs]) simp
      next
        case None
        with brk obtain hs where s: "s = stream_of hs EOF"
          and evs1: "evs1 = recv_events ?ns hs @ [Stream_Recv]"
          by blast
        let ?evs = "Cache_AddBatch # recv_events ?ns hs @ [Stream_Recv, Batch_Flush, Batch_Discard]"
        obtain rf wf where fl: "wb_Flush wb (fst \<sigma>1) = (rf, wf)"
          by (cases "wb_Flush wb (fst \<sigma>1)")
        let ?\<sigma>4 = "(wf, snd \<sigma>1 @ [Batch_Flush])"
        let ?r = "case rf of Some err \<Rightarrow> Err err | None \<Rightarrow> Ok ()"
        from pre run None fl ret have res: "r = ?r" "\<sigma>' = discard wb ?\<sigma>4"
          by (simp_all add: invoke_def split: option.splits)
        have l: "snd (discard wb ?\<sigma>4) = snd \<sigma> @ Rpc_List req # ?evs"
          using log evs1 by (simp add: discard_eq)
        have sub: "set (recv_events ?ns hs @ [Stream_Recv, Batch_Flush, Batch_Discard])
                     \<subseteq> {Stream_Recv, Batch_Flush, Batch_Discard} \<union> range Batch_Add"
          using recv_events_only [of ?ns hs] by auto
        have np: "\<forall>p. ?r \<noteq> Panic p"
          by (simp split: option.splits)
        have src: "fst (rpc_List (cl_rpc c) req (fst \<sigma>)) = Inr (stream_of hs EOF)"
          using lst \<open>rl = Inr s\<close> s by simp
        have ex: "\<exists>hs'. fst (rpc_List (cl_rpc c) req (fst \<sigma>)) = Inr (stream_of hs' EOF)
                \<and> ?evs = Cache_AddBatch # recv_events ?ns hs'
                           @ [Stream_Recv, Batch_Flush, Batch_Discard]"
          using src by (intro exI [of _ hs]) simp
        show ?thesis
          using res l sub np ex src
          by (intro exI [of _ ?evs]) simp
      qed
    qed
  qed
qed

text \<open>\<^verbatim>\<open>fetchDone\<close> returns when \<^verbatim>\<open>List\<close> fails or gives a stream that ends.\<close>

lemma fetchDone_terminates:
  assumes "\<forall>s. fst (rpc_List (cl_rpc c)
                    \<lparr>lst_Filter = Some \<lparr>flt_Prefix = Namespace (cl_opt c), flt_Status = Filter_DONE\<rparr>\<rparr>
                    (fst \<sigma>)) = Inr s \<longrightarrow> (\<exists>hs e. s = stream_of hs e)"
  shows "\<exists>y. fetchDone c \<sigma> = Some y"
proof -
  let ?req = "\<lparr>lst_Filter = Some \<lparr>flt_Prefix = Namespace (cl_opt c), flt_Status = Filter_DONE\<rparr>\<rparr>"
  obtain rl wl where lst: "rpc_List (cl_rpc c) ?req (fst \<sigma>) = (rl, wl)"
    by (cases "rpc_List (cl_rpc c) ?req (fst \<sigma>)")
  show ?thesis
  proof (cases rl)
    case (Inl err)
    with lst show ?thesis
      by (simp add: fetchDone_def invoke_def)
  next
    case (Inr s)
    with lst assms obtain hs e where s: "s = stream_of hs e"
      by auto
    show ?thesis
    proof (cases "cl_cache c")
      case None
      with lst Inr show ?thesis
        by (simp add: fetchDone_def invoke_def)
    next
      case (Some cache)
      obtain rb wb0 where bat: "cache_AddBatch cache wl = (rb, wb0)"
        by (cases "cache_AddBatch cache wl")
      show ?thesis
      proof (cases rb)
        case (Inl err)
        with lst \<open>rl = Inr s\<close> Some bat show ?thesis
          by (simp add: fetchDone_def invoke_def)
      next
        case batch: (Inr wb)
        from recv_loop_terminates
               [of "Namespace (cl_opt c)" wb hs e "(wb0, snd \<sigma> @ [Rpc_List ?req, Cache_AddBatch])"]
        obtain y where
          "recv_loop (Namespace (cl_opt c)) wb (stream_of hs e)
             (wb0, snd \<sigma> @ [Rpc_List ?req, Cache_AddBatch]) = Some y"
          by blast
        with lst \<open>rl = Inr s\<close> Some bat batch s show ?thesis
          by (simp add: fetchDone_def invoke_def split: prod.splits option.splits)
      qed
    qed
  qed
qed

text \<open>
  The result of the loop on a stream that ends, and the state it leaves the batch in:
  the first failure of \<^verbatim>\<open>wb.Add\<close> on the names of the records in the namespace, taken
  in order, is returned; if none fails, the loop leaves by \<^verbatim>\<open>break\<close> at \<^verbatim>\<open>io.EOF\<close>
  and returns any other error that ends the stream.
\<close>

lemma recv_loop_result:
  "\<exists>l. recv_loop ns wb (stream_of hs e) \<sigma> =
     Some (case stage_all wb (map h_Name (filter (\<lambda>h. h_Namespace h = ns) hs)) (fst \<sigma>) of
             (Some err, w) \<Rightarrow> (Some err, (w, l))
           | (None, w) \<Rightarrow> (if e = EOF then None else Some e, (w, l)))"
proof (induction hs arbitrary: \<sigma>)
  case Nil
  show ?case
    by (intro exI [of _ "snd \<sigma> @ [Stream_Recv]"]) (simp add: recv_loop_Error)
next
  case (Cons h hs)
  show ?case
  proof (cases "h_Namespace h = ns")
    case False
    with Cons.IH [of "(fst \<sigma>, snd \<sigma> @ [Stream_Recv])"] show ?thesis
      by (simp add: recv_loop_Handle)
  next
    case True
    obtain r0 w0 where add: "wb_Add wb (h_Name h) (fst \<sigma>) = (r0, w0)"
      by (cases "wb_Add wb (h_Name h) (fst \<sigma>)")
    show ?thesis
    proof (cases r0)
      case (Some err)
      with add True show ?thesis
        by (intro exI [of _ "snd \<sigma> @ [Stream_Recv, Batch_Add (h_Name h)]"])
           (simp add: recv_loop_Handle invoke_def)
    next
      case None
      with add True Cons.IH [of "(w0, snd \<sigma> @ [Stream_Recv, Batch_Add (h_Name h)])"]
      show ?thesis
        by (simp add: recv_loop_Handle invoke_def)
    qed
  qed
qed

text \<open>
  The result of \<^verbatim>\<open>fetchDone\<close> once the batch is open, on a stream that ends: the
  first failure among the stagings, the end of the stream and the flush, in that order,
  and success only if none of them fails. The deferred discard runs on the state that
  the last of these calls left.
\<close>

lemma fetchDone_result:
  assumes cache: "cl_cache c = Some cache"
    and req: "req = \<lparr>lst_Filter = Some \<lparr>flt_Prefix = Namespace (cl_opt c), flt_Status = Filter_DONE\<rparr>\<rparr>"
    and lst: "rpc_List (cl_rpc c) req (fst \<sigma>) = (Inr (stream_of hs e), wl)"
    and bat: "cache_AddBatch cache wl = (Inr wb, wb0)"
  shows "\<exists>r \<sigma>'. fetchDone c \<sigma> = Some (r, \<sigma>')
     \<and> (r, fst \<sigma>') =
         (case stage_all wb (map h_Name (filter (\<lambda>h. h_Namespace h = Namespace (cl_opt c)) hs)) wb0 of
            (Some err, w3) \<Rightarrow> (Err err, wb_Discard wb w3)
          | (None, w3) \<Rightarrow>
              if e = EOF then
                (case wb_Flush wb w3 of
                   (Some err, w4) \<Rightarrow> (Err err, wb_Discard wb w4)
                 | (None, w4) \<Rightarrow> (Ok (), wb_Discard wb w4))
              else (Err e, wb_Discard wb w3))"
proof -
  let ?ns = "Namespace (cl_opt c)"
  let ?names = "map h_Name (filter (\<lambda>h. h_Namespace h = ?ns) hs)"
  let ?\<sigma>2 = "(wb0, snd \<sigma> @ [Rpc_List req, Cache_AddBatch])"
  have pre: "fetchDone c \<sigma> =
      (case recv_loop ?ns wb (stream_of hs e) ?\<sigma>2 of
         None \<Rightarrow> None
       | Some (Some err, \<sigma>3) \<Rightarrow> Some (Err err, discard wb \<sigma>3)
       | Some (None, \<sigma>3) \<Rightarrow>
           (case invoke Batch_Flush (wb_Flush wb) \<sigma>3 of
              (Some err, \<sigma>4) \<Rightarrow> Some (Err err, discard wb \<sigma>4)
            | (None, \<sigma>4) \<Rightarrow> Some (Ok (), discard wb \<sigma>4)))"
    using lst req bat cache
    by (simp add: fetchDone_def invoke_def)
  from recv_loop_result [of ?ns wb hs e ?\<sigma>2] obtain l where
    run: "recv_loop ?ns wb (stream_of hs e) ?\<sigma>2 =
       Some (case stage_all wb ?names wb0 of
               (Some err, w) \<Rightarrow> (Some err, (w, l))
             | (None, w) \<Rightarrow> (if e = EOF then None else Some e, (w, l)))"
    by auto
  obtain ra w3 where st: "stage_all wb ?names wb0 = (ra, w3)"
    by (cases "stage_all wb ?names wb0")
  show ?thesis
  proof (cases ra)
    case (Some err)
    with pre run st show ?thesis
      by (simp add: discard_eq)
  next
    case None
    show ?thesis
    proof (cases "e = EOF")
      case False
      with pre run st None show ?thesis
        by (simp add: discard_eq)
    next
      case True
      obtain rf w4 where fl: "wb_Flush wb w3 = (rf, w4)"
        by (cases "wb_Flush wb w3")
      with pre run st None True show ?thesis
        by (cases rf) (simp_all add: discard_eq invoke_def)
    qed
  qed
qed

lemma fetchDone_AddBatch_fails:
  assumes "cl_cache c = Some cache"
    and "req = \<lparr>lst_Filter = Some \<lparr>flt_Prefix = Namespace (cl_opt c), flt_Status = Filter_DONE\<rparr>\<rparr>"
    and "rpc_List (cl_rpc c) req (fst \<sigma>) = (Inr s, wl)"
    and "fst (cache_AddBatch cache wl) = Inl err"
  shows "\<exists>\<sigma>'. fetchDone c \<sigma> = Some (Err err, \<sigma>')"
  using assms
  by (cases "cache_AddBatch cache wl") (simp add: fetchDone_def invoke_def)

text \<open>
  C4. Construction of a client over a freshly opened cache. Whenever it returns: it
  has made exactly one \<^verbatim>\<open>List\<close> call, filtered to DONE with the namespace as
  prefix, and opened at most one write batch; a client is returned only after the
  stream has ended cleanly, with exactly the names of the records whose namespace
  equals the client's staged, in order, then flushed, then the batch released; a flush
  happens only after the clean end and after all staging; when construction fails no
  client is returned, the last call closes the cache, and the batch is discarded once
  records were being received; a failure of \<^verbatim>\<open>List\<close> and a stream that ends with
  an error other than \<^verbatim>\<open>io.EOF\<close> make construction fail without any flush.
  The result is fixed by the results of the calls: a failure to open the batch is
  returned; on a stream that ends, the first failure among the stagings, the end of
  the stream and the flush, in that order, is returned, and a client is returned only
  if there is none. So a returned client means the batch was opened, every staging and
  the flush returned no error, and the batch was then released.
  Construction does return when \<^verbatim>\<open>List\<close> fails or its stream ends.
\<close>

theorem RPCClient_startup_sync:
  assumes opt: "opt = norm fresh given"
    and req: "req = \<lparr>lst_Filter = Some \<lparr>flt_Prefix = Namespace opt, flt_Status = Filter_DONE\<rparr>\<rparr>"
    and path: "path = Join P (Dir opt) ''cache''"
    and opened: "OpenBadger P path (fst \<sigma>) = (Inr cache, wo)"
  shows "(\<forall>r \<sigma>'. RPCClient P fresh rpc given \<sigma> = Some (r, \<sigma>') \<longrightarrow>
       list_calls (added \<sigma> \<sigma>') = [req]
     \<and> length (filter (\<lambda>x. x = Cache_AddBatch) (added \<sigma> \<sigma>')) \<le> 1
     \<and> (\<forall>ci. r = Ok ci \<longrightarrow>
           ci = \<lparr>cl_rpc = rpc, cl_opt = opt, cl_cache = Some cache, cl_ownCC = None\<rparr>
           \<and> (\<exists>hs. fst (rpc_List rpc req wo) = Inr (stream_of hs EOF)
                \<and> added \<sigma> \<sigma>' = [Open_Badger path, Rpc_List req, Cache_AddBatch]
                      @ recv_events (Namespace opt) hs @ [Stream_Recv, Batch_Flush, Batch_Discard]
                \<and> staged_names (added \<sigma> \<sigma>')
                    = map h_Name (filter (\<lambda>h. h_Namespace h = Namespace opt) hs)))
     \<and> (Batch_Flush \<in> set (added \<sigma> \<sigma>') \<longrightarrow>
           (\<exists>hs rest. fst (rpc_List rpc req wo) = Inr (stream_of hs EOF)
                \<and> added \<sigma> \<sigma>' = [Open_Badger path, Rpc_List req, Cache_AddBatch]
                      @ recv_events (Namespace opt) hs
                      @ [Stream_Recv, Batch_Flush, Batch_Discard] @ rest))
     \<and> (\<forall>err. r = Err err \<longrightarrow>
           last (added \<sigma> \<sigma>') = Cache_Close
           \<and> (Stream_Recv \<in> set (added \<sigma> \<sigma>') \<longrightarrow> Batch_Discard \<in> set (added \<sigma> \<sigma>')))
     \<and> (\<forall>err. fst (rpc_List rpc req wo) = Inl err \<longrightarrow>
           r = Err err \<and> added \<sigma> \<sigma>' = [Open_Badger path, Rpc_List req, Cache_Close])
     \<and> (\<forall>hs e. fst (rpc_List rpc req wo) = Inr (stream_of hs e) \<and> e \<noteq> EOF \<longrightarrow>
           (\<exists>err. r = Err err) \<and> Batch_Flush \<notin> set (added \<sigma> \<sigma>'))
     \<and> (\<forall>p. r \<noteq> Panic p)
     \<and> (\<forall>s wl err. rpc_List rpc req wo = (Inr s, wl) \<and> fst (cache_AddBatch cache wl) = Inl err \<longrightarrow>
           r = Err err)
     \<and> (\<forall>hs e wl wb wb0 ra w3.
           rpc_List rpc req wo = (Inr (stream_of hs e), wl)
           \<and> cache_AddBatch cache wl = (Inr wb, wb0)
           \<and> stage_all wb (map h_Name (filter (\<lambda>h. h_Namespace h = Namespace opt) hs)) wb0 = (ra, w3) \<longrightarrow>
           r = (case ra of
                  Some err \<Rightarrow> Err err
                | None \<Rightarrow>
                    if e = EOF then
                      (case fst (wb_Flush wb w3) of
                         Some err \<Rightarrow> Err err
                       | None \<Rightarrow> Ok \<lparr>cl_rpc = rpc, cl_opt = opt, cl_cache = Some cache,
                                      cl_ownCC = None\<rparr>)
                    else Err e))
     \<and> (\<forall>ci. r = Ok ci \<longrightarrow>
           (\<exists>hs wl wb wb0 w3 w4.
               rpc_List rpc req wo = (Inr (stream_of hs EOF), wl)
               \<and> cache_AddBatch cache wl = (Inr wb, wb0)
               \<and> stage_all wb (map h_Name (filter (\<lambda>h. h_Namespace h = Namespace opt) hs)) wb0
                   = (None, w3)
               \<and> wb_Flush wb w3 = (None, w4)
               \<and> fst \<sigma>' = wb_Discard wb w4)))
   \<and> ((\<forall>s. fst (rpc_List rpc req wo) = Inr s \<longrightarrow> (\<exists>hs e. s = stream_of hs e)) \<longrightarrow>
        (\<exists>r \<sigma>'. RPCClient P fresh rpc given \<sigma> = Some (r, \<sigma>')))"
proof -
  let ?client = "\<lparr>cl_rpc = rpc, cl_opt = opt, cl_cache = Some cache, cl_ownCC = None\<rparr>"
  let ?\<sigma>1 = "(wo, snd \<sigma> @ [Open_Badger path])"
  let ?full = "\<lambda>hs. Cache_AddBatch # recv_events (Namespace opt) hs @ [Stream_Recv, Batch_Flush, Batch_Discard]"
  have body: "RPCClient P fresh rpc given \<sigma> =
      (case fetchDone ?client ?\<sigma>1 of
         None \<Rightarrow> None
       | Some (Err err, \<sigma>2) \<Rightarrow> Some (Err err, snd (invoke Cache_Close (cache_Close cache) \<sigma>2))
       | Some (Panic p, \<sigma>2) \<Rightarrow> Some (Panic p, \<sigma>2)
       | Some (Ok u, \<sigma>2) \<Rightarrow> Some (Ok ?client, \<sigma>2))"
    using opened
    by (simp add: RPCClient_def invoke_def Let_def opt [symmetric] path [symmetric])
  have returns: "\<exists>r \<sigma>'. RPCClient P fresh rpc given \<sigma> = Some (r, \<sigma>')"
    if "\<forall>s. fst (rpc_List rpc req wo) = Inr s \<longrightarrow> (\<exists>hs e. s = stream_of hs e)"
  proof -
    from that have "\<exists>y. fetchDone ?client ?\<sigma>1 = Some y"
      using req by (intro fetchDone_terminates) simp
    then show ?thesis
      by (auto simp: body split: result.splits)
  qed
  have props: "
       list_calls (added \<sigma> \<sigma>') = [req]
     \<and> length (filter (\<lambda>x. x = Cache_AddBatch) (added \<sigma> \<sigma>')) \<le> 1
     \<and> (\<forall>ci. r = Ok ci \<longrightarrow>
           ci = \<lparr>cl_rpc = rpc, cl_opt = opt, cl_cache = Some cache, cl_ownCC = None\<rparr>
           \<and> (\<exists>hs. fst (rpc_List rpc req wo) = Inr (stream_of hs EOF)
                \<and> added \<sigma> \<sigma>' = [Open_Badger path, Rpc_List req, Cache_AddBatch]
                      @ recv_events (Namespace opt) hs @ [Stream_Recv, Batch_Flush, Batch_Discard]
                \<and> staged_names (added \<sigma> \<sigma>')
                    = map h_Name (filter (\<lambda>h. h_Namespace h = Namespace opt) hs)))
     \<and> (Batch_Flush \<in> set (added \<sigma> \<sigma>') \<longrightarrow>
           (\<exists>hs rest. fst (rpc_List rpc req wo) = Inr (stream_of hs EOF)
                \<and> added \<sigma> \<sigma>' = [Open_Badger path, Rpc_List req, Cache_AddBatch]
                      @ recv_events (Namespace opt) hs
                      @ [Stream_Recv, Batch_Flush, Batch_Discard] @ rest))
     \<and> (\<forall>err. r = Err err \<longrightarrow>
           last (added \<sigma> \<sigma>') = Cache_Close
           \<and> (Stream_Recv \<in> set (added \<sigma> \<sigma>') \<longrightarrow> Batch_Discard \<in> set (added \<sigma> \<sigma>')))
     \<and> (\<forall>err. fst (rpc_List rpc req wo) = Inl err \<longrightarrow>
           r = Err err \<and> added \<sigma> \<sigma>' = [Open_Badger path, Rpc_List req, Cache_Close])
     \<and> (\<forall>hs e. fst (rpc_List rpc req wo) = Inr (stream_of hs e) \<and> e \<noteq> EOF \<longrightarrow>
           (\<exists>err. r = Err err) \<and> Batch_Flush \<notin> set (added \<sigma> \<sigma>'))
     \<and> (\<forall>p. r \<noteq> Panic p)
     \<and> (\<forall>s wl err. rpc_List rpc req wo = (Inr s, wl) \<and> fst (cache_AddBatch cache wl) = Inl err \<longrightarrow>
           r = Err err)
     \<and> (\<forall>hs e wl wb wb0 ra w3.
           rpc_List rpc req wo = (Inr (stream_of hs e), wl)
           \<and> cache_AddBatch cache wl = (Inr wb, wb0)
           \<and> stage_all wb (map h_Name (filter (\<lambda>h. h_Namespace h = Namespace opt) hs)) wb0 = (ra, w3) \<longrightarrow>
           r = (case ra of
                  Some err \<Rightarrow> Err err
                | None \<Rightarrow>
                    if e = EOF then
                      (case fst (wb_Flush wb w3) of
                         Some err \<Rightarrow> Err err
                       | None \<Rightarrow> Ok \<lparr>cl_rpc = rpc, cl_opt = opt, cl_cache = Some cache,
                                      cl_ownCC = None\<rparr>)
                    else Err e))
     \<and> (\<forall>ci. r = Ok ci \<longrightarrow>
           (\<exists>hs wl wb wb0 w3 w4.
               rpc_List rpc req wo = (Inr (stream_of hs EOF), wl)
               \<and> cache_AddBatch cache wl = (Inr wb, wb0)
               \<and> stage_all wb (map h_Name (filter (\<lambda>h. h_Namespace h = Namespace opt) hs)) wb0
                   = (None, w3)
               \<and> wb_Flush wb w3 = (None, w4)
               \<and> fst \<sigma>' = wb_Discard wb w4))"
    if ret: "RPCClient P fresh rpc given \<sigma> = Some (r, \<sigma>')" for r \<sigma>'
  proof -
    from ret body obtain r0 \<sigma>2 where run: "fetchDone ?client ?\<sigma>1 = Some (r0, \<sigma>2)"
      by (cases "fetchDone ?client ?\<sigma>1") auto
    have "\<exists>evs. snd \<sigma>2 = snd \<sigma> @ [Open_Badger path, Rpc_List req] @ evs
       \<and> (evs = [] \<or> (\<exists>evs'. evs = Cache_AddBatch # evs'
             \<and> set evs' \<subseteq> {Stream_Recv, Batch_Flush, Batch_Discard} \<union> range Batch_Add))
       \<and> (\<forall>p. r0 \<noteq> Panic p)
       \<and> (r0 = Ok () \<or> Batch_Flush \<in> set evs \<longrightarrow>
             (\<exists>hs. fst (rpc_List rpc req wo) = Inr (stream_of hs EOF) \<and> evs = ?full hs))
       \<and> (Stream_Recv \<in> set evs \<longrightarrow> last evs = Batch_Discard)
       \<and> (\<forall>err. fst (rpc_List rpc req wo) = Inl err \<longrightarrow> r0 = Err err \<and> evs = [])"
      using fetchDone_returns [OF _ _ run, of cache req] req by simp
    then obtain evs where
      log: "snd \<sigma>2 = snd \<sigma> @ [Open_Badger path, Rpc_List req] @ evs"
      and shape: "evs = [] \<or> (\<exists>evs'. evs = Cache_AddBatch # evs'
             \<and> set evs' \<subseteq> {Stream_Recv, Batch_Flush, Batch_Discard} \<union> range Batch_Add)"
      and nopanic: "\<forall>p. r0 \<noteq> Panic p"
      and flushed: "r0 = Ok () \<or> Batch_Flush \<in> set evs \<longrightarrow>
             (\<exists>hs. fst (rpc_List rpc req wo) = Inr (stream_of hs EOF) \<and> evs = ?full hs)"
      and released: "Stream_Recv \<in> set evs \<longrightarrow> last evs = Batch_Discard"
      and listfail: "\<forall>err. fst (rpc_List rpc req wo) = Inl err \<longrightarrow> r0 = Err err \<and> evs = []"
      by blast
    have nolist: "list_calls evs = []"
      using shape by (intro list_calls_none) auto
    have onebatch: "length (filter (\<lambda>x. x = Cache_AddBatch) evs) \<le> 1"
    proof -
      have "filter (\<lambda>x. x = Cache_AddBatch) evs' = []"
        if "set evs' \<subseteq> {Stream_Recv, Batch_Flush, Batch_Discard} \<union> range Batch_Add" for evs'
        using that by (auto simp: filter_empty_conv)
      with shape show ?thesis by auto
    qed
    have discarded: "Stream_Recv \<in> set evs \<longrightarrow> Batch_Discard \<in> set evs"
    proof
      assume a: "Stream_Recv \<in> set evs"
      then have "evs \<noteq> []" by auto
      with a released show "Batch_Discard \<in> set evs"
        using last_in_set [of evs] by auto
    qed
    have dirty: "r0 \<noteq> Ok () \<and> Batch_Flush \<notin> set evs"
      if "fst (rpc_List rpc req wo) = Inr (stream_of hs e) \<and> e \<noteq> EOF" for hs e
    proof (rule ccontr)
      assume "\<not> (r0 \<noteq> Ok () \<and> Batch_Flush \<notin> set evs)"
      with flushed obtain hs' where "fst (rpc_List rpc req wo) = Inr (stream_of hs' EOF)"
        by blast
      with that have "stream_of hs e = stream_of hs' EOF"
        by simp
      from stream_of_inject [OF this] that show False
        by simp
    qed
    have A: "added \<sigma> \<sigma>' = [Open_Badger path, Rpc_List req] @ evs
                            @ (case r0 of Err err \<Rightarrow> [Cache_Close] | _ \<Rightarrow> [])"
      and R: "r = (case r0 of Ok u \<Rightarrow> Ok ?client | Err err \<Rightarrow> Err err | Panic p \<Rightarrow> Panic p)"
      using ret body run log
      by (auto simp: invoke_def added_def split: result.splits prod.splits)
    have c1: "list_calls (added \<sigma> \<sigma>') = [req]"
      using nolist by (simp add: A split: result.splits)
    have c2: "length (filter (\<lambda>x. x = Cache_AddBatch) (added \<sigma> \<sigma>')) \<le> 1"
      using onebatch by (simp add: A split: result.splits)
    have c8: "\<forall>p. r \<noteq> Panic p"
      using nopanic by (simp add: R split: result.splits)
    have c4: "Batch_Flush \<in> set (added \<sigma> \<sigma>') \<longrightarrow>
             (\<exists>hs rest. fst (rpc_List rpc req wo) = Inr (stream_of hs EOF)
                  \<and> added \<sigma> \<sigma>' = [Open_Badger path, Rpc_List req, Cache_AddBatch]
                        @ recv_events (Namespace opt) hs
                        @ [Stream_Recv, Batch_Flush, Batch_Discard] @ rest)"
    proof
      assume "Batch_Flush \<in> set (added \<sigma> \<sigma>')"
      then have "Batch_Flush \<in> set evs"
        by (auto simp: A split: result.splits)
      with flushed obtain hs where
        src: "fst (rpc_List rpc req wo) = Inr (stream_of hs EOF)" and evs: "evs = ?full hs"
        by blast
      show "\<exists>hs rest. fst (rpc_List rpc req wo) = Inr (stream_of hs EOF)
                  \<and> added \<sigma> \<sigma>' = [Open_Badger path, Rpc_List req, Cache_AddBatch]
                        @ recv_events (Namespace opt) hs
                        @ [Stream_Recv, Batch_Flush, Batch_Discard] @ rest"
        using src evs
        by (intro exI [of _ hs] exI [of _ "case r0 of Err err \<Rightarrow> [Cache_Close] | _ \<Rightarrow> []"])
           (simp add: A)
    qed
    have c6: "\<forall>err. fst (rpc_List rpc req wo) = Inl err \<longrightarrow>
             r = Err err \<and> added \<sigma> \<sigma>' = [Open_Badger path, Rpc_List req, Cache_Close]"
      using listfail by (auto simp: A R)
    have c7: "\<forall>hs e. fst (rpc_List rpc req wo) = Inr (stream_of hs e) \<and> e \<noteq> EOF \<longrightarrow>
             (\<exists>err. r = Err err) \<and> Batch_Flush \<notin> set (added \<sigma> \<sigma>')"
    proof (intro allI impI)
      fix hs e
      assume "fst (rpc_List rpc req wo) = Inr (stream_of hs e) \<and> e \<noteq> EOF"
      from dirty [OF this] nopanic
      show "(\<exists>err. r = Err err) \<and> Batch_Flush \<notin> set (added \<sigma> \<sigma>')"
        by (cases r0) (auto simp: A R)
    qed
    have c5: "\<forall>err. r = Err err \<longrightarrow>
             last (added \<sigma> \<sigma>') = Cache_Close
             \<and> (Stream_Recv \<in> set (added \<sigma> \<sigma>') \<longrightarrow> Batch_Discard \<in> set (added \<sigma> \<sigma>'))"
      using discarded by (cases r0) (auto simp: A R)
    have c3: "\<forall>ci. r = Ok ci \<longrightarrow>
             ci = \<lparr>cl_rpc = rpc, cl_opt = opt, cl_cache = Some cache, cl_ownCC = None\<rparr>
             \<and> (\<exists>hs. fst (rpc_List rpc req wo) = Inr (stream_of hs EOF)
                  \<and> added \<sigma> \<sigma>' = [Open_Badger path, Rpc_List req, Cache_AddBatch]
                        @ recv_events (Namespace opt) hs @ [Stream_Recv, Batch_Flush, Batch_Discard]
                  \<and> staged_names (added \<sigma> \<sigma>')
                      = map h_Name (filter (\<lambda>h. h_Namespace h = Namespace opt) hs))"
    proof (intro allI impI)
      fix ci
      assume ok: "r = Ok ci"
      with R have r0: "r0 = Ok ()" and ci: "ci = ?client"
        by (cases r0; simp)+
      with flushed obtain hs where
        src: "fst (rpc_List rpc req wo) = Inr (stream_of hs EOF)" and evs: "evs = ?full hs"
        by blast
      have "added \<sigma> \<sigma>' = [Open_Badger path, Rpc_List req, Cache_AddBatch]
              @ recv_events (Namespace opt) hs @ [Stream_Recv, Batch_Flush, Batch_Discard]"
        using evs r0 by (simp add: A)
      moreover from this have "staged_names (added \<sigma> \<sigma>')
          = map h_Name (filter (\<lambda>h. h_Namespace h = Namespace opt) hs)"
        by (simp add: staged_names_recv_events)
      ultimately show "ci = ?client
             \<and> (\<exists>hs. fst (rpc_List rpc req wo) = Inr (stream_of hs EOF)
                  \<and> added \<sigma> \<sigma>' = [Open_Badger path, Rpc_List req, Cache_AddBatch]
                        @ recv_events (Namespace opt) hs @ [Stream_Recv, Batch_Flush, Batch_Discard]
                  \<and> staged_names (added \<sigma> \<sigma>')
                      = map h_Name (filter (\<lambda>h. h_Namespace h = Namespace opt) hs))"
        using ci src by blast
    qed
    have W: "\<sigma>' = \<sigma>2" if "r0 = Ok ()"
      using ret body run that by simp
    have n1: "\<forall>s wl err. rpc_List rpc req wo = (Inr s, wl) \<and> fst (cache_AddBatch cache wl) = Inl err \<longrightarrow>
           r = Err err"
    proof (intro allI impI)
      fix s wl err
      assume a: "rpc_List rpc req wo = (Inr s, wl) \<and> fst (cache_AddBatch cache wl) = Inl err"
      have "\<exists>\<sigma>'. fetchDone ?client ?\<sigma>1 = Some (Err err, \<sigma>')"
        by (rule fetchDone_AddBatch_fails [where cache = cache and req = req and s = s and wl = wl])
           (use a req in simp_all)
      with run have "r0 = Err err"
        by auto
      then show "r = Err err"
        by (simp add: R)
    qed
    have exact: "(r0, fst \<sigma>2) =
         (case stage_all wb (map h_Name (filter (\<lambda>h. h_Namespace h = Namespace opt) hs)) wb0 of
            (Some err, w3) \<Rightarrow> (Err err, wb_Discard wb w3)
          | (None, w3) \<Rightarrow>
              if e = EOF then
                (case wb_Flush wb w3 of
                   (Some err, w4) \<Rightarrow> (Err err, wb_Discard wb w4)
                 | (None, w4) \<Rightarrow> (Ok (), wb_Discard wb w4))
              else (Err e, wb_Discard wb w3))"
      if "rpc_List rpc req wo = (Inr (stream_of hs e), wl)"
        and "cache_AddBatch cache wl = (Inr wb, wb0)" for hs e wl wb wb0
    proof -
      have "\<exists>r \<sigma>'. fetchDone ?client ?\<sigma>1 = Some (r, \<sigma>')
         \<and> (r, fst \<sigma>') =
         (case stage_all wb (map h_Name (filter (\<lambda>h. h_Namespace h = Namespace (cl_opt ?client)) hs)) wb0 of
            (Some err, w3) \<Rightarrow> (Err err, wb_Discard wb w3)
          | (None, w3) \<Rightarrow>
              if e = EOF then
                (case wb_Flush wb w3 of
                   (Some err, w4) \<Rightarrow> (Err err, wb_Discard wb w4)
                 | (None, w4) \<Rightarrow> (Ok (), wb_Discard wb w4))
              else (Err e, wb_Discard wb w3))"
        by (rule fetchDone_result [where cache = cache and req = req and wl = wl])
           (use that req in simp_all)
      with run show ?thesis
        by auto
    qed
    have n2: "\<forall>hs e wl wb wb0 ra w3.
           rpc_List rpc req wo = (Inr (stream_of hs e), wl)
           \<and> cache_AddBatch cache wl = (Inr wb, wb0)
           \<and> stage_all wb (map h_Name (filter (\<lambda>h. h_Namespace h = Namespace opt) hs)) wb0 = (ra, w3) \<longrightarrow>
           r = (case ra of
                  Some err \<Rightarrow> Err err
                | None \<Rightarrow>
                    if e = EOF then
                      (case fst (wb_Flush wb w3) of
                         Some err \<Rightarrow> Err err
                       | None \<Rightarrow> Ok \<lparr>cl_rpc = rpc, cl_opt = opt, cl_cache = Some cache,
                                      cl_ownCC = None\<rparr>)
                    else Err e)"
    proof (intro allI impI)
      fix hs e wl wb wb0 ra w3
      assume a: "rpc_List rpc req wo = (Inr (stream_of hs e), wl)
           \<and> cache_AddBatch cache wl = (Inr wb, wb0)
           \<and> stage_all wb (map h_Name (filter (\<lambda>h. h_Namespace h = Namespace opt) hs)) wb0 = (ra, w3)"
      from exact [of hs e wl wb wb0] a
      have "r0 = (case ra of
                  Some err \<Rightarrow> Err err
                | None \<Rightarrow>
                    if e = EOF then
                      (case fst (wb_Flush wb w3) of Some err \<Rightarrow> Err err | None \<Rightarrow> Ok ())
                    else Err e)"
        by (auto split: option.splits prod.splits if_splits)
      then show "r = (case ra of
                  Some err \<Rightarrow> Err err
                | None \<Rightarrow>
                    if e = EOF then
                      (case fst (wb_Flush wb w3) of
                         Some err \<Rightarrow> Err err
                       | None \<Rightarrow> Ok ?client)
                    else Err e)"
        by (simp add: R split: option.splits)
    qed
    have n3: "\<forall>ci. r = Ok ci \<longrightarrow>
           (\<exists>hs wl wb wb0 w3 w4.
               rpc_List rpc req wo = (Inr (stream_of hs EOF), wl)
               \<and> cache_AddBatch cache wl = (Inr wb, wb0)
               \<and> stage_all wb (map h_Name (filter (\<lambda>h. h_Namespace h = Namespace opt) hs)) wb0
                   = (None, w3)
               \<and> wb_Flush wb w3 = (None, w4)
               \<and> fst \<sigma>' = wb_Discard wb w4)"
    proof (intro allI impI)
      fix ci
      assume ok: "r = Ok ci"
      with R have r0: "r0 = Ok ()"
        by (cases r0) simp_all
      with flushed obtain hs where "fst (rpc_List rpc req wo) = Inr (stream_of hs EOF)"
        by blast
      then obtain wl where lst: "rpc_List rpc req wo = (Inr (stream_of hs EOF), wl)"
        by (cases "rpc_List rpc req wo") simp
      obtain rb wb0 where bat: "cache_AddBatch cache wl = (rb, wb0)"
        by (cases "cache_AddBatch cache wl")
      have "\<exists>wb. rb = Inr wb"
      proof (cases rb)
        case (Inl err)
        with n1 lst bat have "r = Err err"
          by auto
        with ok show ?thesis
          by simp
      next
        case (Inr wb)
        then show ?thesis
          by simp
      qed
      then obtain wb where wb: "cache_AddBatch cache wl = (Inr wb, wb0)"
        using bat by auto
      from exact [OF lst wb] r0
      obtain w3 w4 where
        "stage_all wb (map h_Name (filter (\<lambda>h. h_Namespace h = Namespace opt) hs)) wb0 = (None, w3)"
        and "wb_Flush wb w3 = (None, w4)"
        and "fst \<sigma>2 = wb_Discard wb w4"
        by (auto split: option.splits prod.splits if_splits)
      with lst wb W [OF r0]
      show "\<exists>hs wl wb wb0 w3 w4.
               rpc_List rpc req wo = (Inr (stream_of hs EOF), wl)
               \<and> cache_AddBatch cache wl = (Inr wb, wb0)
               \<and> stage_all wb (map h_Name (filter (\<lambda>h. h_Namespace h = Namespace opt) hs)) wb0
                   = (None, w3)
               \<and> wb_Flush wb w3 = (None, w4)
               \<and> fst \<sigma>' = wb_Discard wb w4"
        by blast
    qed
    from c1 c2 c3 c4 c5 c6 c7 c8 n1 n2 n3 show ?thesis
      by (intro conjI)
  qed
  from props returns show ?thesis
    by blast
qed

theorem RPCClient_startup_sync_witness:
  "RPCClient
     (stub_Platform (Inr (stub_Cache (Inr False) None (Inr (stub_Writer None None)) None))
        (Inl (Failure ''unused''))
        (stub_V1Client (Inl (Failure ''unused'')) (Inl (Failure ''unused''))))
     ''fresh''
     (stub_V1Client (Inl (Failure ''unused''))
        (Inr (stream_of [sample_record ''jobs'' ''a'', sample_record ''jobs-old'' ''b'',
                         sample_record ''jobs'' ''c''] EOF)))
     (Some sample_options) (0, [])
   = Some (Ok \<lparr>cl_rpc = stub_V1Client (Inl (Failure ''unused''))
                  (Inr (stream_of [sample_record ''jobs'' ''a'', sample_record ''jobs-old'' ''b'',
                                   sample_record ''jobs'' ''c''] EOF)),
               cl_opt = sample_options,
               cl_cache = Some (stub_Cache (Inr False) None (Inr (stub_Writer None None)) None),
               cl_ownCC = None\<rparr>,
           (7, [Open_Badger ''var/cache'',
                Rpc_List \<lparr>lst_Filter = Some \<lparr>flt_Prefix = ''jobs'', flt_Status = Filter_DONE\<rparr>\<rparr>,
                Cache_AddBatch,
                Stream_Recv, Batch_Add ''a'',
                Stream_Recv,
                Stream_Recv, Batch_Add ''c'',
                Stream_Recv, Batch_Flush, Batch_Discard]))
 \<and> staged_names
      [Open_Badger ''var/cache'',
       Rpc_List \<lparr>lst_Filter = Some \<lparr>flt_Prefix = ''jobs'', flt_Status = Filter_DONE\<rparr>\<rparr>,
       Cache_AddBatch,
       Stream_Recv, Batch_Add ''a'',
       Stream_Recv,
       Stream_Recv, Batch_Add ''c'',
       Stream_Recv, Batch_Flush, Batch_Discard] = [''a'', ''c'']
 \<and> map_option fst
      (RPCClient
         (stub_Platform
            (Inr (stub_Cache (Inr False) None
                    (Inr (stub_Writer None (Some (Failure ''disk full'')))) None))
            (Inl (Failure ''unused''))
            (stub_V1Client (Inl (Failure ''unused'')) (Inl (Failure ''unused''))))
         ''fresh''
         (stub_V1Client (Inl (Failure ''unused''))
            (Inr (stream_of [sample_record ''jobs'' ''a''] EOF)))
         (Some sample_options) (0, []))
   = Some (Err (Failure ''disk full''))"
proof -
  let ?hs = "[sample_record ''jobs'' ''a'', sample_record ''jobs-old'' ''b'', sample_record ''jobs'' ''c'']"
  let ?rpc = "stub_V1Client (Inl (Failure ''unused'')) (Inr (stream_of ?hs EOF))"
  let ?cache = "stub_Cache (Inr False) None (Inr (stub_Writer None None)) None"
  let ?P = "stub_Platform (Inr ?cache) (Inl (Failure ''unused''))
              (stub_V1Client (Inl (Failure ''unused'')) (Inl (Failure ''unused'')))"
  let ?req = "\<lparr>lst_Filter = Some \<lparr>flt_Prefix = ''jobs'', flt_Status = Filter_DONE\<rparr>\<rparr>"
  let ?log = "[Open_Badger ''var/cache'', Rpc_List ?req, Cache_AddBatch,
               Stream_Recv, Batch_Add ''a'', Stream_Recv, Stream_Recv, Batch_Add ''c'',
               Stream_Recv, Batch_Flush, Batch_Discard]"
  let ?client = "\<lparr>cl_rpc = ?rpc, cl_opt = sample_options, cl_cache = Some ?cache, cl_ownCC = None\<rparr>"
  have n: "norm ''fresh'' (Some sample_options) = sample_options"
    by (simp add: norm_Some sample_options_def Second_def)
  have ns: "Namespace sample_options = ''jobs''" and dir: "Dir sample_options = ''var''"
    by (simp_all add: sample_options_def)
  have eval: "RPCClient ?P ''fresh'' ?rpc (Some sample_options) (0, []) = Some (Ok ?client, (7, ?log))"
    by (simp add: RPCClient_def fetchDone_def n ns dir stub_Platform_def stub_Cache_def
          stub_V1Client_def stub_Writer_def invoke_def discard_eq recv_loop_Handle recv_loop_Error
          sample_record_def)
  have a1: "sample_options = norm ''fresh'' (Some sample_options)"
    by (simp add: n)
  have a2: "?req = \<lparr>lst_Filter = Some \<lparr>flt_Prefix = Namespace sample_options, flt_Status = Filter_DONE\<rparr>\<rparr>"
    by (simp add: ns)
  have a3: "''var/cache'' = Join ?P (Dir sample_options) ''cache''"
    by (simp add: dir stub_Platform_def)
  have a4: "OpenBadger ?P ''var/cache'' (fst (0 :: nat, [] :: event list)) = (Inr ?cache, 1)"
    by (simp add: stub_Platform_def)
  have src: "fst (rpc_List ?rpc ?req 1) = Inr (stream_of ?hs EOF)"
    by (simp add: stub_V1Client_def)
  note t = RPCClient_startup_sync [OF a1 a2 a3 a4, of ?rpc, THEN conjunct1, rule_format, OF eval]
  note ok = t [THEN conjunct2, THEN conjunct2, THEN conjunct1, rule_format, OF refl]
  from ok obtain hs where
    hs: "fst (rpc_List ?rpc ?req 1) = Inr (stream_of hs EOF)"
    and st: "staged_names (added (0 :: nat, []) (7 :: nat, ?log))
               = map h_Name (filter (\<lambda>h. h_Namespace h = Namespace sample_options) hs)"
    by blast
  from hs src have "stream_of hs EOF = stream_of ?hs EOF"
    by simp
  from stream_of_inject [OF this] have "hs = ?hs"
    by simp
  with st have "staged_names ?log = [''a'', ''c'']"
    by (simp add: added_def ns sample_record_def)
  note staged = this
  let ?wbF = "stub_Writer None (Some (Failure ''disk full''))"
  let ?cacheF = "stub_Cache (Inr False) None (Inr ?wbF) None"
  let ?PF = "stub_Platform (Inr ?cacheF) (Inl (Failure ''unused''))
               (stub_V1Client (Inl (Failure ''unused'')) (Inl (Failure ''unused'')))"
  let ?hsF = "[sample_record ''jobs'' ''a'']"
  let ?rpcF = "stub_V1Client (Inl (Failure ''unused'')) (Inr (stream_of ?hsF EOF))"
  have b3: "''var/cache'' = Join ?PF (Dir sample_options) ''cache''"
    by (simp add: dir stub_Platform_def)
  have b4: "OpenBadger ?PF ''var/cache'' (fst (0 :: nat, [] :: event list)) = (Inr ?cacheF, 1)"
    by (simp add: stub_Platform_def)
  note tf = RPCClient_startup_sync [OF a1 a2 b3 b4, of ?rpcF]
  have "\<forall>s. fst (rpc_List ?rpcF ?req 1) = Inr s \<longrightarrow> (\<exists>hs e. s = stream_of hs e)"
    by (simp add: stub_V1Client_def del: stream_of.simps) blast
  with tf [THEN conjunct2] obtain rF \<sigma>F where
    runF: "RPCClient ?PF ''fresh'' ?rpcF (Some sample_options) (0, []) = Some (rF, \<sigma>F)"
    by blast
  note pf = tf [THEN conjunct1, rule_format, OF runF]
  note exact = pf [THEN conjunct2, THEN conjunct2, THEN conjunct2, THEN conjunct2,
      THEN conjunct2, THEN conjunct2, THEN conjunct2, THEN conjunct2, THEN conjunct2,
      THEN conjunct1, rule_format]
  have prem: "rpc_List ?rpcF ?req 1 = (Inr (stream_of ?hsF EOF), 2)
      \<and> cache_AddBatch ?cacheF 2 = (Inr ?wbF, 3)
      \<and> stage_all ?wbF (map h_Name (filter (\<lambda>h. h_Namespace h = Namespace sample_options) ?hsF)) 3
          = (None, 4)"
    by (simp add: stub_V1Client_def stub_Cache_def stub_Writer_def ns sample_record_def)
  from exact [OF prem] have "rF = Err (Failure ''disk full'')"
    by (simp add: stub_Writer_def)
  with runF have failed:
    "map_option fst (RPCClient ?PF ''fresh'' ?rpcF (Some sample_options) (0, []))
       = Some (Err (Failure ''disk full''))"
    by simp
  with eval staged show ?thesis
    by blast
qed

text \<open>
  A run that fails while streaming: the second \<^verbatim>\<open>Recv\<close> returns an error other than
  \<^verbatim>\<open>io.EOF\<close>. The staged name is not flushed, the batch is discarded, the cache is
  closed and the error is returned.
\<close>

lemma RPCClient_failure_example:
  "RPCClient
     (stub_Platform (Inr (stub_Cache (Inr False) None (Inr (stub_Writer None None)) None))
        (Inl (Failure ''unused''))
        (stub_V1Client (Inl (Failure ''unused'')) (Inl (Failure ''unused''))))
     ''fresh''
     (stub_V1Client (Inl (Failure ''unused''))
        (Inr (stream_of [sample_record ''jobs'' ''a''] (Failure ''connection reset''))))
     (Some sample_options) (0, [])
   = Some (Err (Failure ''connection reset''),
           (6, [Open_Badger ''var/cache'',
                Rpc_List \<lparr>lst_Filter = Some \<lparr>flt_Prefix = ''jobs'', flt_Status = Filter_DONE\<rparr>\<rparr>,
                Cache_AddBatch, Stream_Recv, Batch_Add ''a'', Stream_Recv, Batch_Discard,
                Cache_Close]))"
proof -
  have n: "norm ''fresh'' (Some sample_options) = sample_options"
    by (simp add: norm_Some sample_options_def Second_def)
  have ns: "Namespace sample_options = ''jobs''" and dir: "Dir sample_options = ''var''"
    by (simp_all add: sample_options_def)
  show ?thesis
    by (simp add: RPCClient_def fetchDone_def n ns dir stub_Platform_def stub_Cache_def
          stub_V1Client_def stub_Writer_def invoke_def discard_eq recv_loop_Handle recv_loop_Error
          sample_record_def)
qed

text \<open>
  Two runs in which the stream ends cleanly and the batch fails: a failed staging and
  a failed flush each make construction fail, with the batch discarded and the cache
  closed.
\<close>

lemma RPCClient_batch_failure_examples:
  "RPCClient
     (stub_Platform
        (Inr (stub_Cache (Inr False) None (Inr (stub_Writer (Some (Failure ''disk full'')) None)) None))
        (Inl (Failure ''unused''))
        (stub_V1Client (Inl (Failure ''unused'')) (Inl (Failure ''unused''))))
     ''fresh''
     (stub_V1Client (Inl (Failure ''unused''))
        (Inr (stream_of [sample_record ''jobs'' ''a'', sample_record ''jobs'' ''b''] EOF)))
     (Some sample_options) (0, [])
   = Some (Err (Failure ''disk full''),
           (6, [Open_Badger ''var/cache'',
                Rpc_List \<lparr>lst_Filter = Some \<lparr>flt_Prefix = ''jobs'', flt_Status = Filter_DONE\<rparr>\<rparr>,
                Cache_AddBatch, Stream_Recv, Batch_Add ''a'', Batch_Discard, Cache_Close]))
 \<and> RPCClient
     (stub_Platform
        (Inr (stub_Cache (Inr False) None (Inr (stub_Writer None (Some (Failure ''disk full'')))) None))
        (Inl (Failure ''unused''))
        (stub_V1Client (Inl (Failure ''unused'')) (Inl (Failure ''unused''))))
     ''fresh''
     (stub_V1Client (Inl (Failure ''unused''))
        (Inr (stream_of [sample_record ''jobs'' ''a''] EOF)))
     (Some sample_options) (0, [])
   = Some (Err (Failure ''disk full''),
           (7, [Open_Badger ''var/cache'',
                Rpc_List \<lparr>lst_Filter = Some \<lparr>flt_Prefix = ''jobs'', flt_Status = Filter_DONE\<rparr>\<rparr>,
                Cache_AddBatch, Stream_Recv, Batch_Add ''a'', Stream_Recv, Batch_Flush,
                Batch_Discard, Cache_Close]))"
proof -
  have n: "norm ''fresh'' (Some sample_options) = sample_options"
    by (simp add: norm_Some sample_options_def Second_def)
  have ns: "Namespace sample_options = ''jobs''" and dir: "Dir sample_options = ''var''"
    by (simp_all add: sample_options_def)
  show ?thesis
    by (simp add: RPCClient_def fetchDone_def n ns dir stub_Platform_def stub_Cache_def
          stub_V1Client_def stub_Writer_def invoke_def discard_eq recv_loop_Handle recv_loop_Error
          sample_record_def)
qed

text \<open>
  A dialled client, built over test doubles, owns the connection it dialled; the world
  and the log it is returned with are where the last example of C8 below starts.
\<close>

lemma DialClient_example:
  "DialClient
     (stub_Platform (Inr (stub_Cache (Inr False) None (Inr (stub_Writer None None)) None))
        (Inr (stub_ClientConn None))
        (stub_V1Client (Inl (Failure ''unused'')) (Inr (stream_of [] EOF))))
     ''fresh'' ''host:7475'' None (0, [])
   = Some (Ok \<lparr>cl_rpc = stub_V1Client (Inl (Failure ''unused'')) (Inr (stream_of [] EOF)),
               cl_opt = \<lparr>Owner = ''fresh'', Namespace = [], TTL = 600000000000, Dir = ''data'',
                          OnError = None\<rparr>,
               cl_cache = Some (stub_Cache (Inr False) None (Inr (stub_Writer None None)) None),
               cl_ownCC = Some (stub_ClientConn None)\<rparr>,
           (6, [Dial ''host:7475'', Open_Badger ''data/cache'',
                Rpc_List \<lparr>lst_Filter = Some \<lparr>flt_Prefix = [], flt_Status = Filter_DONE\<rparr>\<rparr>,
                Cache_AddBatch, Stream_Recv, Batch_Flush, Batch_Discard]))"
  by (simp add: DialClient_def WrapClient_def RPCClient_def fetchDone_def norm_None
        stub_Platform_def stub_Cache_def stub_V1Client_def stub_Writer_def invoke_def
        discard_eq recv_loop_Error)

text \<open>
  C8. Close on a client that has a cache closes the cache, and then closes the
  connection exactly when the client owns one; both are attempted whatever the first
  returns, and the result is the connection's error if that close failed, otherwise the
  cache's error if that close failed, otherwise nil. Every client a constructor returns
  has a cache; it owns a connection exactly when it was made by \<^verbatim>\<open>DialClient\<close>, and
  the connection is the one dialled.
\<close>

theorem client_Close_closes:
  "(\<forall>cache. cl_cache c = Some cache \<and> cl_ownCC c = None \<longrightarrow>
      client_Close c \<sigma>
        = (fst (cache_Close cache (fst \<sigma>)),
           (snd (cache_Close cache (fst \<sigma>)), snd \<sigma> @ [Cache_Close])))
 \<and> (\<forall>cache cc. cl_cache c = Some cache \<and> cl_ownCC c = Some cc \<longrightarrow>
      client_Close c \<sigma>
        = ((case fst (cc_Close cc (snd (cache_Close cache (fst \<sigma>)))) of
              Some e2 \<Rightarrow> Some e2
            | None \<Rightarrow> fst (cache_Close cache (fst \<sigma>))),
           (snd (cc_Close cc (snd (cache_Close cache (fst \<sigma>)))),
            snd \<sigma> @ [Cache_Close, Conn_Close])))
 \<and> (\<forall>ci \<tau>'. RPCClient P fresh rpc given \<tau> = Some (Ok ci, \<tau>') \<longrightarrow>
      cl_cache ci \<noteq> None \<and> cl_ownCC ci = None)
 \<and> (\<forall>ci \<tau>'. WrapClient P fresh conn given \<tau> = Some (Ok ci, \<tau>') \<longrightarrow>
      cl_cache ci \<noteq> None \<and> cl_ownCC ci = None)
 \<and> (\<forall>ci \<tau>'. DialClient P fresh target given \<tau> = Some (Ok ci, \<tau>') \<longrightarrow>
      cl_cache ci \<noteq> None
      \<and> (\<exists>cc. cl_ownCC ci = Some cc \<and> fst (DialContext P target (fst \<tau>)) = Inr cc))"
proof -
  have rpcc: "cl_cache ci \<noteq> None \<and> cl_ownCC ci = None"
    if "RPCClient P fresh rpc given \<tau> = Some (Ok ci, \<tau>')" for rpc \<tau> ci \<tau>'
    using that
    by (auto simp: RPCClient_def Let_def
             split: prod.splits sum.splits option.splits result.splits)
  have wrap: "cl_cache ci \<noteq> None \<and> cl_ownCC ci = None"
    if "WrapClient P fresh conn given \<tau> = Some (Ok ci, \<tau>')" for ci \<tau>'
    using that rpcc by (simp add: WrapClient_def)
  have dial: "cl_cache ci \<noteq> None
      \<and> (\<exists>cc. cl_ownCC ci = Some cc \<and> fst (DialContext P target (fst \<tau>)) = Inr cc)"
    if "DialClient P fresh target given \<tau> = Some (Ok ci, \<tau>')" for ci \<tau>'
    using that
    by (auto simp: DialClient_def WrapClient_def invoke_def
             split: prod.splits sum.splits option.splits result.splits dest: rpcc)
  have close1: "client_Close c \<sigma>
        = (fst (cache_Close cache (fst \<sigma>)),
           (snd (cache_Close cache (fst \<sigma>)), snd \<sigma> @ [Cache_Close]))"
    if "cl_cache c = Some cache \<and> cl_ownCC c = None" for cache
    using that
    by (auto simp: client_Close_def invoke_def split: prod.splits option.splits)
  have close2: "client_Close c \<sigma>
        = ((case fst (cc_Close cc (snd (cache_Close cache (fst \<sigma>)))) of
              Some e2 \<Rightarrow> Some e2
            | None \<Rightarrow> fst (cache_Close cache (fst \<sigma>))),
           (snd (cc_Close cc (snd (cache_Close cache (fst \<sigma>)))),
            snd \<sigma> @ [Cache_Close, Conn_Close]))"
    if "cl_cache c = Some cache \<and> cl_ownCC c = Some cc" for cache cc
    using that
    by (auto simp: client_Close_def invoke_def split: prod.splits option.splits)
  from close1 close2 rpcc wrap dial show ?thesis
    by blast
qed

theorem client_Close_closes_witness:
  "client_Close
     \<lparr>cl_rpc = stub_V1Client (Inl (Failure ''unused'')) (Inl (Failure ''unused'')),
      cl_opt = sample_options,
      cl_cache = Some (stub_Cache (Inr False) None (Inl (Failure ''unused'')) (Some (Failure ''cache''))),
      cl_ownCC = Some (stub_ClientConn None)\<rparr> (0, [])
   = (Some (Failure ''cache''), (2, [Cache_Close, Conn_Close]))
 \<and> client_Close
     \<lparr>cl_rpc = stub_V1Client (Inl (Failure ''unused'')) (Inl (Failure ''unused'')),
      cl_opt = sample_options,
      cl_cache = Some (stub_Cache (Inr False) None (Inl (Failure ''unused'')) (Some (Failure ''cache''))),
      cl_ownCC = Some (stub_ClientConn (Some (Failure ''conn'')))\<rparr> (0, [])
   = (Some (Failure ''conn''), (2, [Cache_Close, Conn_Close]))
 \<and> client_Close
     \<lparr>cl_rpc = stub_V1Client (Inl (Failure ''unused'')) (Inl (Failure ''unused'')),
      cl_opt = sample_options,
      cl_cache = Some (stub_Cache (Inr False) None (Inl (Failure ''unused'')) None),
      cl_ownCC = None\<rparr> (0, [])
   = (None, (1, [Cache_Close]))
 \<and> client_Close
     \<lparr>cl_rpc = stub_V1Client (Inl (Failure ''unused'')) (Inr (stream_of [] EOF)),
      cl_opt = \<lparr>Owner = ''fresh'', Namespace = [], TTL = 600000000000, Dir = ''data'',
                 OnError = None\<rparr>,
      cl_cache = Some (stub_Cache (Inr False) None (Inr (stub_Writer None None)) None),
      cl_ownCC = Some (stub_ClientConn None)\<rparr>
     (6, [Dial ''host:7475'', Open_Badger ''data/cache'',
          Rpc_List \<lparr>lst_Filter = Some \<lparr>flt_Prefix = [], flt_Status = Filter_DONE\<rparr>\<rparr>,
          Cache_AddBatch, Stream_Recv, Batch_Flush, Batch_Discard])
   = (None,
      (8, [Dial ''host:7475'', Open_Badger ''data/cache'',
           Rpc_List \<lparr>lst_Filter = Some \<lparr>flt_Prefix = [], flt_Status = Filter_DONE\<rparr>\<rparr>,
           Cache_AddBatch, Stream_Recv, Batch_Flush, Batch_Discard, Cache_Close, Conn_Close]))"
proof -
  let ?rpc = "stub_V1Client (Inl (Failure ''unused'')) (Inl (Failure ''unused''))"
  let ?bad = "stub_Cache (Inr False) None (Inl (Failure ''unused'')) (Some (Failure ''cache''))"
  let ?good = "stub_Cache (Inr False) None (Inl (Failure ''unused'')) None"
  let ?P = "stub_Platform (Inl (Failure ''unused'')) (Inl (Failure ''unused'')) ?rpc"
  have 1: "client_Close \<lparr>cl_rpc = ?rpc, cl_opt = sample_options, cl_cache = Some ?bad,
                          cl_ownCC = Some (stub_ClientConn None)\<rparr> (0, [])
             = (Some (Failure ''cache''), (2, [Cache_Close, Conn_Close]))"
    using client_Close_closes
            [where c = "\<lparr>cl_rpc = ?rpc, cl_opt = sample_options, cl_cache = Some ?bad,
                          cl_ownCC = Some (stub_ClientConn None)\<rparr>"
               and \<sigma> = "(0, [])" and P = ?P and fresh = "''fresh''" and rpc = ?rpc
               and given = None and \<tau> = "(0, [])" and conn = "stub_ClientConn None"
               and target = "''host''"]
    by (simp add: stub_Cache_def stub_ClientConn_def)
  have 2: "client_Close \<lparr>cl_rpc = ?rpc, cl_opt = sample_options, cl_cache = Some ?bad,
                          cl_ownCC = Some (stub_ClientConn (Some (Failure ''conn'')))\<rparr> (0, [])
             = (Some (Failure ''conn''), (2, [Cache_Close, Conn_Close]))"
    using client_Close_closes
            [where c = "\<lparr>cl_rpc = ?rpc, cl_opt = sample_options, cl_cache = Some ?bad,
                          cl_ownCC = Some (stub_ClientConn (Some (Failure ''conn'')))\<rparr>"
               and \<sigma> = "(0, [])" and P = ?P and fresh = "''fresh''" and rpc = ?rpc
               and given = None and \<tau> = "(0, [])" and conn = "stub_ClientConn None"
               and target = "''host''"]
    by (simp add: stub_Cache_def stub_ClientConn_def)
  have 3: "client_Close \<lparr>cl_rpc = ?rpc, cl_opt = sample_options, cl_cache = Some ?good,
                          cl_ownCC = None\<rparr> (0, [])
             = (None, (1, [Cache_Close]))"
    using client_Close_closes
            [where c = "\<lparr>cl_rpc = ?rpc, cl_opt = sample_options, cl_cache = Some ?good,
                          cl_ownCC = None\<rparr>"
               and \<sigma> = "(0, [])" and P = ?P and fresh = "''fresh''" and rpc = ?rpc
               and given = None and \<tau> = "(0, [])" and conn = "stub_ClientConn None"
               and target = "''host''"]
    by (simp add: stub_Cache_def stub_ClientConn_def)
  let ?dialled = "\<lparr>cl_rpc = stub_V1Client (Inl (Failure ''unused'')) (Inr (stream_of [] EOF)),
               cl_opt = \<lparr>Owner = ''fresh'', Namespace = [], TTL = 600000000000, Dir = ''data'',
                          OnError = None\<rparr>,
               cl_cache = Some (stub_Cache (Inr False) None (Inr (stub_Writer None None)) None),
               cl_ownCC = Some (stub_ClientConn None)\<rparr>"
  let ?\<sigma> = "(6 :: nat, [Dial ''host:7475'', Open_Badger ''data/cache'',
                Rpc_List \<lparr>lst_Filter = Some \<lparr>flt_Prefix = [], flt_Status = Filter_DONE\<rparr>\<rparr>,
                Cache_AddBatch, Stream_Recv, Batch_Flush, Batch_Discard])"
  have 4: "client_Close ?dialled ?\<sigma> = (None, (8, snd ?\<sigma> @ [Cache_Close, Conn_Close]))"
    using client_Close_closes
            [where c = ?dialled and \<sigma> = ?\<sigma> and P = ?P and fresh = "''fresh''" and rpc = ?rpc
               and given = None and \<tau> = "(0, [])" and conn = "stub_ClientConn None"
               and target = "''host''"]
    by (simp add: stub_Cache_def stub_ClientConn_def)
  from 1 2 3 4 show ?thesis
    by simp
qed

end
